theory Spec2Isabelle
  imports Main "HOL-Library.Word" "HOL-Library.AList"
begin

section \<open>Python values\<close>

text \<open>
  The module \<open>aiohttp_client_cache/response.py\<close> is dynamically typed: the attributes of a
  response live in its \<open>__dict__\<close>, \<open>body\<close> is declared \<open>Any\<close>, and \<open>__getstate__\<close> and
  \<open>__setstate__\<close> work on the attribute dictionary itself. The embedding therefore keeps
  one type of Python values and represents an object by its class and its attribute
  dictionary, an association list in insertion order as a Python \<open>dict\<close> is.
\<close>

type_synonym byte = "8 word"

text \<open>The exceptions that the modelled code can raise.\<close>

datatype error =
    AttributeError
  | TypeError
  | ValueError
  | IndexError
  | KeyError string
  | AssertionError
  | RuntimeError
  | ClientConnectionError
  | ClientPayloadError

text \<open>
  Objects that belong to the running client: they are bound to the transport, the
  connection or the event loop and have no meaning outside the process.
\<close>

datatype handle =
    EventLoop
  | Session
  | Connection
  | Protocol
  | Timer
  | WriterTask
  | ContinueFuture
  | TraceHook
  | ResolveCharset
  | LiveRequestInfo

text \<open>What the protocol does to a stream reader once more of the response arrives.\<close>

datatype event =
    FeedData "byte list"
  | FeedEof
  | SetException error

text \<open>
  A \<open>StreamReader\<close>: the deque of buffered chunks, the end-of-file flag, the stored
  exception, the read limit, and \<open>pending\<close>, the calls that its protocol is still going to
  make (empty for a reader whose protocol is a \<open>Mock\<close>).
\<close>

datatype 'c stream =
  Stream (buffer: "'c list") (eof: bool) (exception: "error option")
         (pending: "event list") (limit: nat)

datatype cls = ClientResponse | CachedResponse

datatype pyval =
    PNone
  | PBool bool
  | PInt int
  | PBytes "byte list"
  | PStr string
  | PDatetime int
  | PUrl string "string option"
  | PHandle handle
  | PTuple "pyval list"
  | PList "pyval list"
  | PDict "(string \<times> pyval) list"
  | PHeaders "(string \<times> string) list"
  | PRequestInfo pyval pyval pyval pyval
  | PStream "pyval stream"
  | PObj cls "(string \<times> pyval) list"

type_synonym attrs = "(string \<times> pyval) list"

text \<open>
  An awaited call returns, raises, or never resumes (a reader that waits for data that
  its protocol never feeds).
\<close>

datatype 'a outcome = Returns 'a | Raises error | Blocks

text \<open>Truth value of an object, as \<open>not x\<close>, \<open>x or y\<close> and \<open>if x:\<close> test it.\<close>

fun truthy :: "pyval \<Rightarrow> bool" where
  "truthy PNone = False"
| "truthy (PBool b) = b"
| "truthy (PInt i) = (i \<noteq> 0)"
| "truthy (PBytes bs) = (bs \<noteq> [])"
| "truthy (PStr s) = (s \<noteq> [])"
| "truthy (PDatetime t) = True"
| "truthy (PUrl s f) = (s \<noteq> [])"
| "truthy (PHandle h) = True"
| "truthy (PTuple xs) = (xs \<noteq> [])"
| "truthy (PList xs) = (xs \<noteq> [])"
| "truthy (PDict d) = (d \<noteq> [])"
| "truthy (PHeaders hs) = (hs \<noteq> [])"
| "truthy (PRequestInfo u m h r) = True"
| "truthy (PStream s) = True"
| "truthy (PObj c d) = True"

text \<open>\<open>len(x)\<close>: a \<open>TypeError\<close> for an object without a length.\<close>

fun py_len :: "pyval \<Rightarrow> error + nat" where
  "py_len (PBytes bs) = Inr (length bs)"
| "py_len (PStr s) = Inr (length s)"
| "py_len (PTuple xs) = Inr (length xs)"
| "py_len (PList xs) = Inr (length xs)"
| "py_len (PDict d) = Inr (length d)"
| "py_len (PHeaders hs) = Inr (length hs)"
| "py_len (PRequestInfo u m h r) = Inr 4"
| "py_len v = Inl TypeError"

text \<open>
  Iterating over an object (\<open>for r in x\<close>): a sequence gives its items, a mapping its
  keys, anything else is a \<open>TypeError\<close>.
\<close>

fun py_iter :: "pyval \<Rightarrow> error + pyval list" where
  "py_iter (PTuple xs) = Inr xs"
| "py_iter (PList xs) = Inr xs"
| "py_iter (PBytes bs) = Inr (map (\<lambda>b. PInt (uint b)) bs)"
| "py_iter (PStr s) = Inr (map (\<lambda>c. PStr [c]) s)"
| "py_iter (PDict d) = Inr (map (\<lambda>kv. PStr (fst kv)) d)"
| "py_iter (PHeaders hs) = Inr (map (\<lambda>kv. PStr (fst kv)) hs)"
| "py_iter (PRequestInfo u m h r) = Inr [u, m, h, r]"
| "py_iter v = Inl TypeError"

text \<open>\<open>x[i]\<close> for a tuple or a list; indexing bytes gives an integer.\<close>

fun py_index :: "pyval \<Rightarrow> nat \<Rightarrow> error + pyval" where
  "py_index (PTuple xs) i = (if i < length xs then Inr (xs ! i) else Inl IndexError)"
| "py_index (PList xs) i = (if i < length xs then Inr (xs ! i) else Inl IndexError)"
| "py_index (PBytes bs) i = (if i < length bs then Inr (PInt (uint (bs ! i))) else Inl IndexError)"
| "py_index (PStr s) i = (if i < length s then Inr (PStr [s ! i]) else Inl IndexError)"
| "py_index v i = Inl TypeError"

text \<open>\<open>a > b\<close> with a datetime on the left, as \<open>is_expired\<close> evaluates it.\<close>

fun datetime_gt :: "int \<Rightarrow> pyval \<Rightarrow> error + bool" where
  "datetime_gt a (PDatetime b) = Inr (a > b)"
| "datetime_gt a v = Inl TypeError"

subsection \<open>Attribute dictionaries\<close>

definition getattr :: "attrs \<Rightarrow> string \<Rightarrow> error + pyval" where
  "getattr d k = (case map_of d k of None \<Rightarrow> Inl AttributeError | Some v \<Rightarrow> Inr v)"

definition setattr :: "attrs \<Rightarrow> string \<Rightarrow> pyval \<Rightarrow> attrs" where
  "setattr d k v = AList.update k v d"

text \<open>\<open>del state[k]\<close>: a \<open>KeyError\<close> when the key is absent.\<close>

definition delitem :: "attrs \<Rightarrow> string \<Rightarrow> error + attrs" where
  "delitem d k = (if map_of d k = None then Inl (KeyError k) else Inr (AList.delete k d))"

text \<open>\<open>d.update(other)\<close>.\<close>

definition dict_update :: "attrs \<Rightarrow> attrs \<Rightarrow> attrs" where
  "dict_update d other = fold (\<lambda>kv acc. AList.update (fst kv) (snd kv) acc) other d"

text \<open>A sequence of calls that stops at the first one that does not return.\<close>

fun sequence_outcome :: "('a \<Rightarrow> 'b outcome) \<Rightarrow> 'a list \<Rightarrow> 'b list outcome" where
  "sequence_outcome f [] = Returns []"
| "sequence_outcome f (x # xs) =
     (case f x of
        Raises e \<Rightarrow> Raises e
      | Blocks \<Rightarrow> Blocks
      | Returns y \<Rightarrow>
          (case sequence_outcome f xs of
             Raises e \<Rightarrow> Raises e
           | Blocks \<Rightarrow> Blocks
           | Returns ys \<Rightarrow> Returns (y # ys)))"

fun sequence_sum :: "('a \<Rightarrow> error + 'b) \<Rightarrow> 'a list \<Rightarrow> error + 'b list" where
  "sequence_sum f [] = Inr []"
| "sequence_sum f (x # xs) =
     (case f x of
        Inl e \<Rightarrow> Inl e
      | Inr y \<Rightarrow> (case sequence_sum f xs of Inl e \<Rightarrow> Inl e | Inr ys \<Rightarrow> Inr (y # ys)))"

section \<open>The stream reader of the HTTP library\<close>

text \<open>
  \<open>CachedStreamReader\<close> subclasses the \<open>StreamReader\<close> of aiohttp and adds only a
  constructor. The base class is modelled here as far as the constructor and a full read
  use it: \<open>feed_data\<close>, \<open>feed_eof\<close>, \<open>set_exception\<close>, \<open>is_eof\<close>, \<open>at_eof\<close>, \<open>readany\<close> and
  \<open>read\<close> with no size. Flow control (pausing the protocol above the high-water mark)
  and timers are left out.
\<close>

definition new_stream :: "event list \<Rightarrow> nat \<Rightarrow> pyval stream" where
  "new_stream protocol_calls lim = Stream [] False None protocol_calls lim"

definition feed_data :: "pyval stream \<Rightarrow> pyval \<Rightarrow> error + pyval stream" where
  "feed_data s data =
     (if eof s then Inl AssertionError
      else if \<not> truthy data then Inr s
      else (case py_len data of
              Inl e \<Rightarrow> Inl e
            | Inr n \<Rightarrow> Inr (Stream (buffer s @ [data]) (eof s) (exception s) (pending s) (limit s))))"

definition feed_eof :: "pyval stream \<Rightarrow> pyval stream" where
  "feed_eof s = Stream (buffer s) True (exception s) (pending s) (limit s)"

definition set_exception :: "pyval stream \<Rightarrow> error \<Rightarrow> pyval stream" where
  "set_exception s e = Stream (buffer s) (eof s) (Some e) (pending s) (limit s)"

definition is_eof :: "pyval stream \<Rightarrow> bool" where
  "is_eof s = eof s"

definition at_eof :: "pyval stream \<Rightarrow> bool" where
  "at_eof s = (eof s \<and> buffer s = [])"

text \<open>\<open>b"".join(chunks)\<close>: a \<open>TypeError\<close> when a chunk is not bytes.\<close>

fun join_bytes :: "pyval list \<Rightarrow> error + byte list" where
  "join_bytes [] = Inr []"
| "join_bytes (PBytes bs # cs) =
     (case join_bytes cs of Inl e \<Rightarrow> Inl e | Inr rest \<Rightarrow> Inr (bs @ rest))"
| "join_bytes (c # cs) = Inl TypeError"

text \<open>\<open>_read_nowait(-1)\<close>: everything that is buffered, leaving the buffer empty.\<close>

definition read_nowait :: "pyval stream \<Rightarrow> error + (byte list \<times> pyval stream)" where
  "read_nowait s =
     (case join_bytes (buffer s) of
        Inl e \<Rightarrow> Inl e
      | Inr data \<Rightarrow> Inr (data, Stream [] (eof s) (exception s) (pending s) (limit s)))"

text \<open>
  The waiting loop of \<open>readany\<close>, \<open>while not self._buffer and not self._eof: await
  self._wait()\<close>. The reader resumes when its protocol makes the next call; with no call
  left it never resumes. An exception that the protocol sets is raised in the waiting
  reader.
\<close>

function await_data :: "pyval stream \<Rightarrow> pyval stream outcome" where
  "await_data s =
     (if buffer s \<noteq> [] \<or> eof s then Returns s
      else (case pending s of
              [] \<Rightarrow> Blocks
            | FeedData bs # rest \<Rightarrow>
                (case feed_data (Stream (buffer s) (eof s) (exception s) rest (limit s)) (PBytes bs) of
                   Inl e \<Rightarrow> Raises e
                 | Inr s' \<Rightarrow> await_data (Stream (buffer s') (eof s') (exception s') rest (limit s')))
            | FeedEof # rest \<Rightarrow>
                await_data (feed_eof (Stream (buffer s) (eof s) (exception s) rest (limit s)))
            | SetException e # rest \<Rightarrow> Raises e))"
  by pat_completeness auto
termination
  by (relation "measure (\<lambda>s. length (pending s))") (auto simp: feed_eof_def)

declare await_data.simps [simp del]

definition readany :: "pyval stream \<Rightarrow> (byte list \<times> pyval stream) outcome" where
  "readany s =
     (case exception s of
        Some e \<Rightarrow> Raises e
      | None \<Rightarrow>
          (case await_data s of
             Raises e \<Rightarrow> Raises e
           | Blocks \<Rightarrow> Blocks
           | Returns s1 \<Rightarrow>
               (case read_nowait s1 of
                  Inl e \<Rightarrow> Raises e
                | Inr r \<Rightarrow> Returns r)))"

lemma await_data_progress:
  "await_data s = Returns s1 \<Longrightarrow>
     (buffer s1 \<noteq> [] \<or> eof s1) \<and> (s1 = s \<or> length (pending s1) < length (pending s))"
proof (induction s rule: await_data.induct)
  case (1 s)
  show ?case
  proof (cases "buffer s \<noteq> [] \<or> eof s")
    case True
    with "1.prems" show ?thesis by (simp add: await_data.simps)
  next
    case False
    note idle = this
    show ?thesis
    proof (cases "pending s")
      case Nil
      with idle "1.prems" show ?thesis by (simp add: await_data.simps)
    next
      case (Cons ev rest)
      show ?thesis
      proof (cases ev)
        case (FeedData bs)
        let ?t = "Stream (buffer s) (eof s) (exception s) rest (limit s)"
        from idle Cons FeedData "1.prems" obtain s' where
          fd: "feed_data ?t (PBytes bs) = Inr s'" and
          rec: "await_data (Stream (buffer s') (eof s') (exception s') rest (limit s')) = Returns s1"
          by (auto simp: await_data.simps [of s] split: sum.splits)
        from "1.IH"(1) [OF idle Cons FeedData fd rec] Cons show ?thesis by auto
      next
        case FeedEof
        let ?t = "Stream (buffer s) (eof s) (exception s) rest (limit s)"
        from idle Cons FeedEof "1.prems" have rec: "await_data (feed_eof ?t) = Returns s1"
          by (simp add: await_data.simps [of s])
        from "1.IH"(2) [OF idle Cons FeedEof rec] Cons show ?thesis
          by (auto simp: feed_eof_def)
      next
        case (SetException e)
        with idle Cons "1.prems" show ?thesis by (simp add: await_data.simps [of s])
      qed
    qed
  qed
qed

lemma readany_progress:
  assumes "readany s = Returns (block, s')" and "block \<noteq> []"
  shows "2 * length (pending s') + (if buffer s' = [] then 0 else 1)
           < 2 * length (pending s) + (if buffer s = [] then 0 else (1::nat))"
proof -
  from assms(1) obtain s1 where
    aw: "await_data s = Returns s1" and rn: "read_nowait s1 = Inr (block, s')"
    by (auto simp: readany_def split: option.splits outcome.splits sum.splits)
  from rn have s': "buffer s' = []" "pending s' = pending s1" and jb: "join_bytes (buffer s1) = Inr block"
    by (auto simp: read_nowait_def split: sum.splits)
  from jb assms(2) have ne: "buffer s1 \<noteq> []" by auto
  from await_data_progress [OF aw] have "s1 = s \<or> length (pending s1) < length (pending s)"
    by simp
  with ne s' show ?thesis by auto
qed

text \<open>
  \<open>read()\<close> with no size: \<open>readany\<close> is called until it returns an empty block, and the
  blocks are joined.
\<close>

function read_blocks :: "pyval stream \<Rightarrow> byte list list \<Rightarrow> (byte list \<times> pyval stream) outcome" where
  "read_blocks s blocks =
     (case readany s of
        Raises e \<Rightarrow> Raises e
      | Blocks \<Rightarrow> Blocks
      | Returns r \<Rightarrow>
          (if fst r = [] then Returns (concat blocks, snd r)
           else read_blocks (snd r) (blocks @ [fst r])))"
  by pat_completeness auto
termination
  by (relation "measure (\<lambda>(s, blocks). 2 * length (pending s) + (if buffer s = [] then 0 else 1))")
     (auto dest: readany_progress [OF _ , rotated] simp: prod_eq_iff)

declare read_blocks.simps [simp del]

definition stream_read :: "pyval stream \<Rightarrow> (byte list \<times> pyval stream) outcome" where
  "stream_read s = (case exception s of Some e \<Rightarrow> Raises e | None \<Rightarrow> read_blocks s [])"

section \<open>\<open>CachedStreamReader\<close>\<close>

text \<open>
  The constructor: \<open>body = body or b''\<close>, a mock protocol (which never calls back), the
  base constructor with \<open>limit=len(body)\<close>, then \<open>feed_data(body)\<close> and \<open>feed_eof()\<close>.
\<close>

definition CachedStreamReader :: "pyval \<Rightarrow> error + pyval stream" where
  "CachedStreamReader body =
     (let body = (if truthy body then body else PBytes []) in
      case py_len body of
        Inl e \<Rightarrow> Inl e
      | Inr n \<Rightarrow>
          (case feed_data (new_stream [] n) body of
             Inl e \<Rightarrow> Inl e
           | Inr s \<Rightarrow> Inr (feed_eof s)))"

section \<open>\<open>CachedResponse\<close>\<close>

text \<open>
  What the module takes from outside: the clock \<open>utcnow()\<close> of the package, the codec behind
  \<open>bytes.decode('utf-8', 'surrogateescape')\<close> (which is total on bytes), and
  \<open>get_encoding()\<close> of the base class, which may raise.
\<close>

record env =
  utcnow :: int
  utf8_decode :: "byte list \<Rightarrow> string"
  base_get_encoding :: "attrs \<Rightarrow> error + string"

text \<open>The arguments of \<open>CachedResponse.__init__\<close>, in the order of its signature.\<close>

record init_args =
  arg_method :: pyval
  arg_url :: pyval
  arg_writer :: pyval
  arg_continue100 :: pyval
  arg_timer :: pyval
  arg_request_info :: pyval
  arg_traces :: pyval
  arg_loop :: pyval
  arg_session :: pyval
  arg_headers :: pyval
  arg_raw_headers :: pyval
  arg_status :: pyval
  arg_history :: pyval
  arg_body :: pyval
  arg_content :: pyval
  arg_closed :: pyval
  arg_protocol :: pyval
  arg_connection :: pyval
  arg_version :: pyval
  arg_reason :: pyval
  arg_cookies :: pyval
  arg_released :: pyval

text \<open>\<open>url.with_fragment(None)\<close>.\<close>

fun with_fragment_none :: "pyval \<Rightarrow> pyval" where
  "with_fragment_none (PUrl u f) = PUrl u None"
| "with_fragment_none v = v"

text \<open>
  The constructor of the base class \<open>ClientResponse\<close>: the attributes it stores, in its
  order. Its argument checks and the debug traceback are left out.
\<close>

definition ClientResponse_init :: "init_args \<Rightarrow> attrs" where
  "ClientResponse_init a =
     [(''method'', arg_method a),
      (''cookies'', PDict []),
      (''_real_url'', arg_url a),
      (''_url'', with_fragment_none (arg_url a)),
      (''_body'', PNone),
      (''_writer'', arg_writer a),
      (''_continue'', arg_continue100 a),
      (''_closed'', PBool True),
      (''_history'', PTuple []),
      (''_request_info'', arg_request_info a),
      (''_timer'', (if arg_timer a = PNone then PHandle Timer else arg_timer a)),
      (''_cache'', PDict []),
      (''_traces'', arg_traces a),
      (''_loop'', arg_loop a),
      (''_session'', arg_session a),
      (''_resolve_charset'', PHandle ResolveCharset)]"

text \<open>\<open>CachedResponse.__init__\<close>: the assignments after \<open>super().__init__\<close>, in order.\<close>

definition CachedResponse_init :: "env \<Rightarrow> init_args \<Rightarrow> attrs" where
  "CachedResponse_init ev a =
     dict_update (ClientResponse_init a)
       [(''_content'', PNone),
        (''created_at'', PDatetime (utcnow ev)),
        (''expires'', PNone),
        (''last_used'', PDatetime (utcnow ev)),
        (''from_cache'', PBool True),
        (''_headers'', arg_headers a),
        (''_raw_headers'', arg_raw_headers a),
        (''status'', arg_status a),
        (''_history'', arg_history a),
        (''_body'', arg_body a),
        (''_content'', arg_content a),
        (''_closed'', arg_closed a),
        (''_protocol'', arg_protocol a),
        (''_connection'', arg_connection a),
        (''version'', arg_version a),
        (''reason'', arg_reason a),
        (''cookies'', arg_cookies a),
        (''_released'', arg_released a)]"

subsection \<open>Serialization\<close>

definition excluded_keys :: "string list" where
  "excluded_keys =
     [''_request_info'', ''_headers'', ''_cache'', ''_loop'', ''_timer'',
      ''_resolve_charset'', ''_protocol'', ''_content'', ''_session'']"

fun del_keys :: "string list \<Rightarrow> attrs \<Rightarrow> error + attrs" where
  "del_keys [] state = Inr state"
| "del_keys (k # ks) state =
     (case delitem state k of Inl e \<Rightarrow> Inl e | Inr state' \<Rightarrow> del_keys ks state')"

text \<open>\<open>__getstate__\<close>: a copy of \<open>__dict__\<close> with nine keys deleted.\<close>

definition getstate :: "attrs \<Rightarrow> error + attrs" where
  "getstate self = del_keys excluded_keys self"

text \<open>\<open>x.decode(...)\<close>: only bytes have the method.\<close>

fun py_decode :: "env \<Rightarrow> pyval \<Rightarrow> error + string" where
  "py_decode ev (PBytes bs) = Inr (utf8_decode ev bs)"
| "py_decode ev v = Inl AttributeError"

definition decode_header :: "env \<Rightarrow> pyval \<Rightarrow> error + (string \<times> string)" where
  "decode_header ev header =
     (case py_index header 0 of
        Inl e \<Rightarrow> Inl e
      | Inr k \<Rightarrow>
          (case py_decode ev k of
             Inl e \<Rightarrow> Inl e
           | Inr name \<Rightarrow>
               (case py_index header 1 of
                  Inl e \<Rightarrow> Inl e
                | Inr v \<Rightarrow>
                    (case py_decode ev v of
                       Inl e \<Rightarrow> Inl e
                     | Inr val \<Rightarrow> Inr (name, val)))))"

text \<open>
  \<open>__setstate__\<close>: the state is merged into \<open>__dict__\<close>, \<open>_cache\<close> and \<open>_content\<close> are reset,
  and the headers are rebuilt from the raw header pairs. \<open>self.raw_headers\<close> is the base
  class's property over \<open>_raw_headers\<close>; that it memoises its value in \<open>_cache\<close> is left out.
\<close>

definition setstate :: "env \<Rightarrow> attrs \<Rightarrow> attrs \<Rightarrow> error + attrs" where
  "setstate ev self state =
     (let self = dict_update self state;
          self = setattr self ''_cache'' (PDict []);
          self = setattr self ''_content'' PNone
      in case getattr self ''_raw_headers'' of
           Inl e \<Rightarrow> Inl e
         | Inr raw \<Rightarrow>
             (case py_iter raw of
                Inl e \<Rightarrow> Inl e
              | Inr hs \<Rightarrow>
                  (case sequence_sum (decode_header ev) hs of
                     Inl e \<Rightarrow> Inl e
                   | Inr pairs \<Rightarrow> Inr (setattr self ''_headers'' (PHeaders pairs)))))"

subsection \<open>Accessors\<close>

definition get_encoding :: "attrs \<Rightarrow> error + pyval" where
  "get_encoding self = getattr self ''_encoding''"

definition headers :: "attrs \<Rightarrow> error + pyval" where
  "headers self = getattr self ''_headers''"

definition set_headers :: "attrs \<Rightarrow> pyval \<Rightarrow> attrs" where
  "set_headers self v = setattr self ''_headers'' v"

text \<open>The property \<open>url\<close> of the base class returns \<open>_url\<close>.\<close>

definition url :: "attrs \<Rightarrow> error + pyval" where
  "url self = getattr self ''_url''"

definition request_info :: "attrs \<Rightarrow> error + pyval" where
  "request_info self =
     (case url self of
        Inl e \<Rightarrow> Inl e
      | Inr u \<Rightarrow>
          (case getattr self ''method'' of
             Inl e \<Rightarrow> Inl e
           | Inr m \<Rightarrow>
               (case headers self of
                  Inl e \<Rightarrow> Inl e
                | Inr h \<Rightarrow>
                    (case url self of
                       Inl e \<Rightarrow> Inl e
                     | Inr r \<Rightarrow> Inr (PRequestInfo u m h r)))))"

text \<open>
  The property \<open>content\<close>: it returns the stream and, since it may store a new one, the
  updated object.
\<close>

definition content :: "attrs \<Rightarrow> error + (pyval \<times> attrs)" where
  "content self =
     (case getattr self ''_content'' of
        Inl e \<Rightarrow> Inl e
      | Inr c \<Rightarrow>
          (if c = PNone then
             (case getattr self ''_body'' of
                Inl e \<Rightarrow> Inl e
              | Inr b \<Rightarrow>
                  (case CachedStreamReader b of
                     Inl e \<Rightarrow> Inl e
                   | Inr s \<Rightarrow> Inr (PStream s, setattr self ''_content'' (PStream s))))
           else Inr (c, self)))"

definition set_content :: "attrs \<Rightarrow> pyval \<Rightarrow> attrs" where
  "set_content self v = setattr self ''_content'' v"

definition reset :: "attrs \<Rightarrow> attrs" where
  "reset self = setattr self ''_content'' PNone"

text \<open>
  \<open>is_expired\<close>: the body of the \<open>try\<close>, and the handler that turns \<open>AttributeError\<close>,
  \<open>TypeError\<close> and \<open>ValueError\<close> into \<open>True\<close>.
\<close>

definition is_expired_try :: "env \<Rightarrow> attrs \<Rightarrow> error + bool" where
  "is_expired_try ev self =
     (case getattr self ''expires'' of
        Inl e \<Rightarrow> Inl e
      | Inr x \<Rightarrow> (if x = PNone then Inr False else datetime_gt (utcnow ev) x))"

definition is_expired :: "env \<Rightarrow> attrs \<Rightarrow> error + bool" where
  "is_expired ev self =
     (case is_expired_try ev self of
        Inl e \<Rightarrow> (if e \<in> {AttributeError, TypeError, ValueError} then Inr True else Inl e)
      | Inr b \<Rightarrow> Inr b)"

text \<open>
  A consumer's full read of the body stream, \<open>await response.content.read()\<close>: the stream
  object is read in place, so the object afterwards holds the drained stream.
\<close>

definition read_content :: "attrs \<Rightarrow> (byte list \<times> attrs) outcome" where
  "read_content self =
     (case content self of
        Inl e \<Rightarrow> Raises e
      | Inr (c, self1) \<Rightarrow>
          (case c of
             PStream s \<Rightarrow>
               (case stream_read s of
                  Raises e \<Rightarrow> Raises e
                | Blocks \<Rightarrow> Blocks
                | Returns (data, s') \<Rightarrow> Returns (data, setattr self1 ''_content'' (PStream s')))
           | _ \<Rightarrow> Raises AttributeError))"

text \<open>
  \<open>read()\<close> of the base class, as \<open>postprocess\<close> awaits it: a body that is still \<open>None\<close> is
  read from \<open>self.content\<close> to the end of the stream and stored; a body that is there is
  kept, unless the response was released. Trace hooks and the release of the
  connection after the read are left out.
\<close>

definition ClientResponse_read :: "attrs \<Rightarrow> attrs outcome" where
  "ClientResponse_read self =
     (case getattr self ''_body'' of
        Inl e \<Rightarrow> Raises e
      | Inr b \<Rightarrow>
          (if b = PNone then
             (case read_content self of
                Raises e \<Rightarrow> Raises e
              | Blocks \<Rightarrow> Blocks
              | Returns (data, self1) \<Rightarrow> Returns (setattr self1 ''_body'' (PBytes data)))
           else
             (case getattr self ''_released'' of
                Inl e \<Rightarrow> Raises e
              | Inr r \<Rightarrow> (if truthy r then Raises ClientConnectionError else Returns self))))"

subsection \<open>\<open>postprocess\<close>\<close>

text \<open>
  Lines 149--156: the assertion on \<open>expires\<close>, the read of a response that was not
  released, the new replay stream over \<open>_body\<close>, and the expiration time.
\<close>

fun is_datetime :: "pyval \<Rightarrow> bool" where
  "is_datetime (PDatetime t) = True"
| "is_datetime v = False"

definition postprocess_body :: "attrs \<Rightarrow> pyval \<Rightarrow> attrs outcome" where
  "postprocess_body self expires =
     (if \<not> (is_datetime expires \<or> expires = PNone) then Raises AssertionError
      else
        (case getattr self ''_released'' of
           Inl e \<Rightarrow> Raises e
         | Inr released \<Rightarrow>
             (case (if \<not> truthy released then ClientResponse_read self else Returns self) of
                Raises e \<Rightarrow> Raises e
              | Blocks \<Rightarrow> Blocks
              | Returns self1 \<Rightarrow>
                  (case getattr self1 ''_body'' of
                     Inl e \<Rightarrow> Raises e
                   | Inr b \<Rightarrow>
                       (case CachedStreamReader b of
                          Inl e \<Rightarrow> Raises e
                        | Inr s \<Rightarrow>
                            Returns (setattr (set_content self1 (PStream s)) ''expires'' expires))))))"

text \<open>
  Reading an attribute of a history entry \<open>r\<close>. \<open>r.content\<close> is a plain attribute of a
  \<open>ClientResponse\<close> and the property above of a \<open>CachedResponse\<close>; a stream that the
  property stores in \<open>r\<close> is not kept, since \<open>r\<close> itself is replaced in the history.
\<close>

definition attr_of :: "pyval \<Rightarrow> string \<Rightarrow> error + pyval" where
  "attr_of r k = (case r of PObj c d \<Rightarrow> getattr d k | _ \<Rightarrow> Inl AttributeError)"

definition content_of :: "pyval \<Rightarrow> error + pyval" where
  "content_of r =
     (case r of
        PObj c d \<Rightarrow>
          (case c of
             ClientResponse \<Rightarrow> getattr d ''content''
           | CachedResponse \<Rightarrow> (case content d of Inl e \<Rightarrow> Inl e | Inr p \<Rightarrow> Inr (fst p)))
      | _ \<Rightarrow> Inl AttributeError)"

definition and_then :: "error + 'a \<Rightarrow> ('a \<Rightarrow> error + 'b) \<Rightarrow> error + 'b" where
  "and_then m f = (case m of Inl e \<Rightarrow> Inl e | Inr x \<Rightarrow> f x)"

text \<open>
  The constructor call of lines 161--184 for one history entry, its arguments read from
  \<open>r\<close> in the order in which they are written.
\<close>

definition from_history :: "env \<Rightarrow> pyval \<Rightarrow> error + attrs" where
  "from_history ev r =
     and_then (attr_of r ''method'') (\<lambda>method.
     and_then (attr_of r ''_url'') (\<lambda>url.
     and_then (attr_of r ''_writer'') (\<lambda>writer.
     and_then (attr_of r ''_continue'') (\<lambda>continue100.
     and_then (attr_of r ''_timer'') (\<lambda>timer.
     and_then (attr_of r ''_request_info'') (\<lambda>request_info.
     and_then (attr_of r ''_traces'') (\<lambda>traces.
     and_then (attr_of r ''_loop'') (\<lambda>loop.
     and_then (attr_of r ''_session'') (\<lambda>session.
     and_then (attr_of r ''_closed'') (\<lambda>closed.
     and_then (attr_of r ''_protocol'') (\<lambda>protocol.
     and_then (attr_of r ''_connection'') (\<lambda>connection.
     and_then (attr_of r ''version'') (\<lambda>version.
     and_then (attr_of r ''status'') (\<lambda>status.
     and_then (attr_of r ''reason'') (\<lambda>reason.
     and_then (attr_of r ''_headers'') (\<lambda>headers.
     and_then (attr_of r ''_raw_headers'') (\<lambda>raw_headers.
     and_then (content_of r) (\<lambda>content.
     and_then (attr_of r ''cookies'') (\<lambda>cookies.
     and_then (attr_of r ''_history'') (\<lambda>history.
     and_then (attr_of r ''_body'') (\<lambda>body.
     and_then (attr_of r ''_released'') (\<lambda>released.
       Inr (CachedResponse_init ev
         \<lparr>arg_method = method, arg_url = url, arg_writer = writer,
          arg_continue100 = continue100, arg_timer = timer,
          arg_request_info = request_info, arg_traces = traces, arg_loop = loop,
          arg_session = session, arg_headers = headers, arg_raw_headers = raw_headers,
          arg_status = status, arg_history = history, arg_body = body,
          arg_content = content, arg_closed = closed, arg_protocol = protocol,
          arg_connection = connection, arg_version = version, arg_reason = reason,
          arg_cookies = cookies, arg_released = released\<rparr>)))))))))))))))))))))))"

subsection \<open>Facts for the termination of \<open>postprocess\<close>\<close>

lemma map_of_setattr: "map_of (setattr d k v) k' = (if k' = k then Some v else map_of d k')"
  by (simp add: setattr_def update_conv')

lemma getattr_setattr: "getattr (setattr d k v) k' = (if k' = k then Inr v else getattr d k')"
  by (simp add: getattr_def map_of_setattr)

lemma sequence_outcome_cong [fundef_cong]:
  "xs = ys \<Longrightarrow> (\<And>x. x \<in> set ys \<Longrightarrow> f x = g x) \<Longrightarrow> sequence_outcome f xs = sequence_outcome g ys"
  by (induction ys arbitrary: xs) (auto split: outcome.splits)

lemma size_attr_lt: "map_of d k = Some v \<Longrightarrow> size v < size (PObj c d)"
  by (induction d) (auto split: if_splits)

lemma size_attr_lt': "map_of d k = Some v \<Longrightarrow> size v < size (PDict d)"
  by (induction d) (auto split: if_splits)

lemma size_item_lt: "x \<in> set xs \<Longrightarrow> size x < Suc (size_list size xs)"
  by (induction xs) auto

lemma py_iter_obj_size: "py_iter h = Inr rs \<Longrightarrow> PObj c d \<in> set rs \<Longrightarrow> size (PObj c d) < size h"
  by (cases h) (auto dest: size_item_lt)

lemma read_content_other:
  "read_content self = Returns (data, self1) \<Longrightarrow> k \<noteq> ''_content'' \<Longrightarrow> map_of self1 k = map_of self k"
  by (auto simp: read_content_def content_def map_of_setattr split: sum.splits pyval.splits outcome.splits if_splits prod.splits)

lemma ClientResponse_read_other:
  "ClientResponse_read self = Returns self1 \<Longrightarrow> k \<noteq> ''_content'' \<Longrightarrow> k \<noteq> ''_body'' \<Longrightarrow>
     map_of self1 k = map_of self k"
  by (auto simp: ClientResponse_read_def map_of_setattr dest: read_content_other
           split: sum.splits outcome.splits if_splits prod.splits)

lemma postprocess_body_cases:
  assumes "postprocess_body self expires = Returns self2"
  obtains released self1 b s where
    "is_datetime expires \<or> expires = PNone"
    "getattr self ''_released'' = Inr released"
    "(if \<not> truthy released then ClientResponse_read self else Returns self) = Returns self1"
    "getattr self1 ''_body'' = Inr b"
    "CachedStreamReader b = Inr s"
    "self2 = setattr (set_content self1 (PStream s)) ''expires'' expires"
proof -
  from assms have ok: "is_datetime expires \<or> expires = PNone"
    unfolding postprocess_body_def by (auto split: if_splits)
  with assms obtain released where r: "getattr self ''_released'' = Inr released"
    unfolding postprocess_body_def by (cases "getattr self ''_released''") auto
  let ?m = "if \<not> truthy released then ClientResponse_read self else Returns self"
  from assms ok r obtain self1 where m: "?m = Returns self1"
    unfolding postprocess_body_def by (cases ?m) auto
  from assms ok r m obtain b where b: "getattr self1 ''_body'' = Inr b"
    unfolding postprocess_body_def by (cases "getattr self1 ''_body''") auto
  from assms ok r m b obtain s where s: "CachedStreamReader b = Inr s"
    unfolding postprocess_body_def by (cases "CachedStreamReader b") auto
  from assms ok r m b s have "self2 = setattr (set_content self1 (PStream s)) ''expires'' expires"
    unfolding postprocess_body_def by simp
  with ok r m b s that show thesis by blast
qed

lemma postprocess_body_other:
  assumes "postprocess_body self expires = Returns self2"
    and "k \<noteq> ''_content''" "k \<noteq> ''_body''" "k \<noteq> ''expires''"
  shows "map_of self2 k = map_of self k"
proof -
  from assms(1) obtain released self1 b s where
    m: "(if \<not> truthy released then ClientResponse_read self else Returns self) = Returns self1"
    and e: "self2 = setattr (set_content self1 (PStream s)) ''expires'' expires"
    by (rule postprocess_body_cases)
  from m assms(2,3) have "map_of self1 k = map_of self k"
    by (auto split: if_splits dest: ClientResponse_read_other)
  with e assms(2,4) show ?thesis by (simp add: set_content_def map_of_setattr)
qed

lemma and_then_Inr: "and_then m f = Inr y \<Longrightarrow> \<exists>x. m = Inr x \<and> f x = Inr y"
  by (cases m) (auto simp: and_then_def)

lemma map_of_dict_update_Cons:
  "dict_update d ((k, v) # kvs) = dict_update (setattr d k v) kvs"
  by (simp add: dict_update_def setattr_def)

lemma dict_update_Nil: "dict_update d [] = d"
  by (simp add: dict_update_def)

lemma init_history: "map_of (CachedResponse_init ev a) ''_history'' = Some (arg_history a)"
  by (simp add: CachedResponse_init_def ClientResponse_init_def map_of_dict_update_Cons dict_update_Nil map_of_setattr)

lemma from_history_Inr:
  assumes "from_history ev r = Inr c"
  shows "\<exists>a. c = CachedResponse_init ev a
           \<and> attr_of r ''method'' = Inr (arg_method a)
           \<and> attr_of r ''_raw_headers'' = Inr (arg_raw_headers a)
           \<and> content_of r = Inr (arg_content a)
           \<and> attr_of r ''_history'' = Inr (arg_history a)
           \<and> attr_of r ''_body'' = Inr (arg_body a)
           \<and> attr_of r ''_released'' = Inr (arg_released a)"
  using assms unfolding from_history_def
  apply (elim and_then_Inr [elim_format] exE conjE)
  apply (drule sum.inject [THEN iffD1])
  apply (rule exI)
  apply (intro conjI)
        apply (erule sym)
       apply simp_all
  done

lemma from_history_history:
  assumes "from_history ev r = Inr c"
  shows "\<exists>cl d h. r = PObj cl d \<and> map_of d ''_history'' = Some h \<and> map_of c ''_history'' = Some h"
proof -
  from assms obtain a where c: "c = CachedResponse_init ev a"
    and m: "attr_of r ''method'' = Inr (arg_method a)"
    and h: "attr_of r ''_history'' = Inr (arg_history a)"
    using from_history_Inr by blast
  from m obtain cl d where r: "r = PObj cl d"
    by (cases r) (auto simp: attr_of_def)
  from h r have "map_of d ''_history'' = Some (arg_history a)"
    by (auto simp: attr_of_def getattr_def split: option.splits)
  with r c show ?thesis by (simp add: init_history)
qed

text \<open>
  \<open>postprocess\<close>: lines 149--156, then every entry of a non-empty \<open>_history\<close> is rebuilt
  as a \<open>CachedResponse\<close> and post-processed in turn with no expiration time, and at last
  the encoding is resolved by the base class and stored.
\<close>

function postprocess :: "env \<Rightarrow> attrs \<Rightarrow> pyval \<Rightarrow> attrs outcome" where
  "postprocess ev self expires =
     (case postprocess_body self expires of
        Raises e \<Rightarrow> Raises e
      | Blocks \<Rightarrow> Blocks
      | Returns self1 \<Rightarrow>
          (case getattr self1 ''_history'' of
             Inl e \<Rightarrow> Raises e
           | Inr h \<Rightarrow>
               (case (if truthy h then
                        (case py_iter h of
                           Inl e \<Rightarrow> Raises e
                         | Inr rs \<Rightarrow>
                             (case sequence_outcome
                                     (\<lambda>r. case from_history ev r of
                                            Inl e \<Rightarrow> Raises e
                                          | Inr c \<Rightarrow>
                                              (case postprocess ev c PNone of
                                                 Raises e \<Rightarrow> Raises e
                                               | Blocks \<Rightarrow> Blocks
                                               | Returns c' \<Rightarrow> Returns (PObj CachedResponse c')))
                                     rs of
                                Raises e \<Rightarrow> Raises e
                              | Blocks \<Rightarrow> Blocks
                              | Returns hs \<Rightarrow> Returns (setattr self1 ''_history'' (PTuple hs))))
                      else Returns self1) of
                  Raises e \<Rightarrow> Raises e
                | Blocks \<Rightarrow> Blocks
                | Returns self2 \<Rightarrow>
                    (case base_get_encoding ev self2 of
                       Inl e \<Rightarrow> Raises e
                     | Inr enc \<Rightarrow> Returns (setattr self2 ''_encoding'' (PStr enc))))))"
  by pat_completeness auto
termination
proof (relation "measure (\<lambda>(ev, self, expires). case map_of self ''_history'' of None \<Rightarrow> 0 | Some h \<Rightarrow> size h)")
  show "wf (measure (\<lambda>(ev, self, expires). case map_of self ''_history'' of None \<Rightarrow> 0 | Some h \<Rightarrow> size h))"
    by simp
next
  fix ev :: env and self expires self1 h rs r c
  assume body: "postprocess_body self expires = Returns self1"
    and h: "getattr self1 ''_history'' = Inr h"
    and it: "py_iter h = Inr rs" and r: "r \<in> set rs"
    and c: "from_history ev r = Inr c"
  from postprocess_body_other [OF body, of "''_history''"] h
  have hs: "map_of self ''_history'' = Some h"
    by (auto simp: getattr_def split: option.splits)
  from from_history_history [OF c] obtain cl d h' where
    rd: "r = PObj cl d" and dh: "map_of d ''_history'' = Some h'" and ch: "map_of c ''_history'' = Some h'"
    by blast
  from py_iter_obj_size [OF it] r rd have "size r < size h" by simp
  moreover from size_attr_lt [OF dh] rd have "size h' < size r" by simp
  ultimately show "((ev, c, PNone), (ev, self, expires))
      \<in> measure (\<lambda>(ev, self, expires). case map_of self ''_history'' of None \<Rightarrow> 0 | Some h \<Rightarrow> size h)"
    using hs ch by simp
qed

declare postprocess.simps [simp del]

section \<open>Notions for the statements\<close>


text \<open>What the comprehension of lines 160--187 does with one history entry.\<close>

definition postprocess_entry :: "env \<Rightarrow> pyval \<Rightarrow> pyval outcome" where
  "postprocess_entry ev r =
     (case from_history ev r of
        Inl e \<Rightarrow> Raises e
      | Inr c \<Rightarrow>
          (case postprocess ev c PNone of
             Raises e \<Rightarrow> Raises e
           | Blocks \<Rightarrow> Blocks
           | Returns c' \<Rightarrow> Returns (PObj CachedResponse c')))"

definition postprocess_history :: "env \<Rightarrow> attrs \<Rightarrow> pyval \<Rightarrow> attrs outcome" where
  "postprocess_history ev self1 h =
     (if truthy h then
        (case py_iter h of
           Inl e \<Rightarrow> Raises e
         | Inr rs \<Rightarrow>
             (case sequence_outcome (postprocess_entry ev) rs of
                Raises e \<Rightarrow> Raises e
              | Blocks \<Rightarrow> Blocks
              | Returns hs \<Rightarrow> Returns (setattr self1 ''_history'' (PTuple hs))))
      else Returns self1)"


text \<open>\<open>n\<close> full reads of the content, each after a \<open>reset()\<close>.\<close>

fun reread :: "nat \<Rightarrow> attrs \<Rightarrow> (byte list list \<times> attrs) outcome" where
  "reread 0 v = Returns ([], v)"
| "reread (Suc n) v =
     (case read_content (reset v) of
        Raises e \<Rightarrow> Raises e
      | Blocks \<Rightarrow> Blocks
      | Returns r \<Rightarrow>
          (case reread n (snd r) of
             Raises e \<Rightarrow> Raises e
           | Blocks \<Rightarrow> Blocks
           | Returns rs \<Rightarrow> Returns (fst r # fst rs, snd rs)))"



text \<open>
  The bytes that a replay stream over a captured body delivers, for a body that is bytes
  or absent.
\<close>

fun replayed :: "pyval \<Rightarrow> byte list option" where
  "replayed PNone = Some []"
| "replayed (PBytes b) = Some b"
| "replayed v = None"

section \<open>Example responses\<close>

text \<open>
  \<open>get_encoding()\<close> of the base class as far as the examples need it: the charset that the
  \<open>Content-Type\<close> header names; with no charset there, a body that was not read is a
  \<open>RuntimeError\<close> and any other body falls back to \<open>utf-8\<close>.
\<close>

definition example_get_encoding :: "attrs \<Rightarrow> error + string" where
  "example_get_encoding self =
     (case getattr self ''_headers'' of
        Inl e \<Rightarrow> Inl e
      | Inr h \<Rightarrow>
          (if h = PHeaders [(''Content-Type'', ''text/html; charset=utf-8'')] then Inr ''utf-8''
           else (case getattr self ''_body'' of
                   Inl e \<Rightarrow> Inl e
                 | Inr b \<Rightarrow> (if b = PNone then Inl RuntimeError else Inr ''utf-8''))))"

text \<open>
  An environment whose clock reads \<open>now\<close> and whose codec maps each byte to the character
  with its code, as UTF-8 does on ASCII.
\<close>

definition env_at :: "int \<Rightarrow> env" where
  "env_at now =
     \<lparr>utcnow = now, utf8_decode = map (\<lambda>b. char_of (unat b)),
      base_get_encoding = example_get_encoding\<rparr>"

text \<open>
  The arguments of a response to \<open>GET http://example.org/a#top\<close> with one header,
  \<open>Content-Type: text/html; charset=utf-8\<close>; the history, the body, the content stream
  and the released flag vary.
\<close>

definition response_args :: "pyval \<Rightarrow> pyval \<Rightarrow> pyval \<Rightarrow> pyval \<Rightarrow> init_args" where
  "response_args hist body cont released =
     \<lparr>arg_method = PStr ''GET'', arg_url = PUrl ''http://example.org/a'' (Some ''top''),
      arg_writer = PNone, arg_continue100 = PNone, arg_timer = PHandle Timer,
      arg_request_info = PHandle LiveRequestInfo, arg_traces = PList [],
      arg_loop = PHandle EventLoop, arg_session = PHandle Session,
      arg_headers = PHeaders [(''Content-Type'', ''text/html; charset=utf-8'')],
      arg_raw_headers =
        PTuple [PTuple [PBytes [67, 111, 110, 116, 101, 110, 116, 45, 84, 121, 112, 101],
          PBytes [116, 101, 120, 116, 47, 104, 116, 109, 108, 59, 32, 99, 104, 97, 114, 115, 101, 116, 61, 117, 116, 102, 45, 56]]],
      arg_status = PInt 200, arg_history = hist, arg_body = body, arg_content = cont,
      arg_closed = PBool True, arg_protocol = PHandle Protocol, arg_connection = PNone,
      arg_version = PTuple [PInt 1, PInt 1], arg_reason = PStr ''OK'',
      arg_cookies = PDict [], arg_released = released\<rparr>"

text \<open>
  A response that has not been read: its stream is still to receive \<open>h\<close>, an empty chunk,
  \<open>i\<close> and the end of the stream.
\<close>

definition live_response :: attrs where
  "live_response =
     CachedResponse_init (env_at 10)
       (response_args (PTuple []) PNone
          (PStream (new_stream [FeedData [104], FeedData [], FeedData [105], FeedEof] 65536))
          (PBool False))"

text \<open>
  A response that was released before its body was read: the stream has buffered the
  bytes \<open>hi\<close>, which nobody read, and carries the exception that the release sets.
\<close>

definition released_response :: attrs where
  "released_response =
     CachedResponse_init (env_at 10)
       (response_args (PTuple []) PNone
          (PStream (Stream [PBytes [104, 105]] False (Some ClientConnectionError) [] 65536))
          (PBool True))"


text \<open>
  A \<open>ClientResponse\<close> as the HTTP library holds it once the head of the response is in:
  the attributes of the base constructor and those that the library sets afterwards.
\<close>

definition ClientResponse_received :: "init_args \<Rightarrow> attrs" where
  "ClientResponse_received a =
     dict_update (ClientResponse_init a)
       [(''version'', arg_version a),
        (''status'', arg_status a),
        (''reason'', arg_reason a),
        (''_headers'', arg_headers a),
        (''_raw_headers'', arg_raw_headers a),
        (''content'', arg_content a),
        (''_protocol'', arg_protocol a),
        (''_connection'', arg_connection a),
        (''_closed'', arg_closed a),
        (''cookies'', arg_cookies a),
        (''_history'', arg_history a),
        (''_body'', arg_body a),
        (''_released'', arg_released a)]"

text \<open>
  Two redirect responses as the library keeps them in a history, both released, the
  first without its body having been read, the second after its body \<open>go\<close> was read; and
  the response that they led to.
\<close>

definition first_hop :: pyval where
  "first_hop =
     PObj ClientResponse
       (ClientResponse_received
          ((response_args (PTuple []) PNone
              (PStream (Stream [] False (Some ClientConnectionError) [] 65536)) (PBool True))
           \<lparr>arg_status := PInt 301, arg_reason := PStr ''Moved''\<rparr>))"

definition second_hop :: pyval where
  "second_hop =
     PObj ClientResponse
       (ClientResponse_received
          ((response_args (PTuple []) (PBytes [103, 111])
              (PStream (Stream [] True (Some ClientConnectionError) [] 65536)) (PBool True))
           \<lparr>arg_status := PInt 302, arg_reason := PStr ''Found''\<rparr>))"

definition redirected_response :: attrs where
  "redirected_response =
     CachedResponse_init (env_at 10)
       (response_args (PTuple [first_hop, second_hop]) (PBytes [104, 105]) PNone (PBool True))"

text \<open>What the operations give on these responses.\<close>

definition live_snapshot :: attrs where
  "live_snapshot =
     [(''method'', PStr ''GET''),
      (''cookies'', PDict []),
      (''_real_url'', PUrl ''http://example.org/a'' (Some ''top'')),
      (''_url'', PUrl ''http://example.org/a'' None),
      (''_body'', PBytes [104, 105]),
      (''_writer'', PNone),
      (''_continue'', PNone),
      (''_closed'', PBool True),
      (''_history'', PTuple []),
      (''_request_info'', PHandle LiveRequestInfo),
      (''_timer'', PHandle Timer),
      (''_cache'', PDict []),
      (''_traces'', PList []),
      (''_loop'', PHandle EventLoop),
      (''_session'', PHandle Session),
      (''_resolve_charset'', PHandle ResolveCharset),
      (''_content'', PStream (Stream [PBytes [104, 105]] True None [] 2)),
      (''created_at'', PDatetime 10),
      (''expires'', PDatetime 20),
      (''last_used'', PDatetime 10),
      (''from_cache'', PBool True),
      (''_headers'', PHeaders [(''Content-Type'', ''text/html; charset=utf-8'')]),
      (''_raw_headers'', PTuple [PTuple [PBytes [67, 111, 110, 116, 101, 110, 116, 45, 84, 121, 112, 101], PBytes [116, 101, 120, 116, 47, 104, 116, 109, 108, 59, 32, 99, 104, 97, 114, 115, 101, 116, 61, 117, 116, 102, 45, 56]]]),
      (''status'', PInt 200),
      (''_protocol'', PHandle Protocol),
      (''_connection'', PNone),
      (''version'', PTuple [PInt 1, PInt 1]),
      (''reason'', PStr ''OK''),
      (''_released'', PBool False),
      (''_encoding'', PStr ''utf-8'')]"

definition live_state :: attrs where
  "live_state =
     [(''method'', PStr ''GET''),
      (''cookies'', PDict []),
      (''_real_url'', PUrl ''http://example.org/a'' (Some ''top'')),
      (''_url'', PUrl ''http://example.org/a'' None),
      (''_body'', PBytes [104, 105]),
      (''_writer'', PNone),
      (''_continue'', PNone),
      (''_closed'', PBool True),
      (''_history'', PTuple []),
      (''_traces'', PList []),
      (''created_at'', PDatetime 10),
      (''expires'', PDatetime 20),
      (''last_used'', PDatetime 10),
      (''from_cache'', PBool True),
      (''_raw_headers'', PTuple [PTuple [PBytes [67, 111, 110, 116, 101, 110, 116, 45, 84, 121, 112, 101], PBytes [116, 101, 120, 116, 47, 104, 116, 109, 108, 59, 32, 99, 104, 97, 114, 115, 101, 116, 61, 117, 116, 102, 45, 56]]]),
      (''status'', PInt 200),
      (''_connection'', PNone),
      (''version'', PTuple [PInt 1, PInt 1]),
      (''reason'', PStr ''OK''),
      (''_released'', PBool False),
      (''_encoding'', PStr ''utf-8'')]"

definition live_view :: attrs where
  "live_view =
     [(''method'', PStr ''GET''),
      (''cookies'', PDict []),
      (''_real_url'', PUrl ''http://example.org/a'' (Some ''top'')),
      (''_url'', PUrl ''http://example.org/a'' None),
      (''_body'', PBytes [104, 105]),
      (''_writer'', PNone),
      (''_continue'', PNone),
      (''_closed'', PBool True),
      (''_history'', PTuple []),
      (''_traces'', PList []),
      (''created_at'', PDatetime 10),
      (''expires'', PDatetime 20),
      (''last_used'', PDatetime 10),
      (''from_cache'', PBool True),
      (''_raw_headers'', PTuple [PTuple [PBytes [67, 111, 110, 116, 101, 110, 116, 45, 84, 121, 112, 101], PBytes [116, 101, 120, 116, 47, 104, 116, 109, 108, 59, 32, 99, 104, 97, 114, 115, 101, 116, 61, 117, 116, 102, 45, 56]]]),
      (''status'', PInt 200),
      (''_connection'', PNone),
      (''version'', PTuple [PInt 1, PInt 1]),
      (''reason'', PStr ''OK''),
      (''_released'', PBool False),
      (''_encoding'', PStr ''utf-8''),
      (''_cache'', PDict []),
      (''_content'', PNone),
      (''_headers'', PHeaders [(''Content-Type'', ''text/html; charset=utf-8'')])]"

definition released_snapshot :: attrs where
  "released_snapshot =
     [(''method'', PStr ''GET''),
      (''cookies'', PDict []),
      (''_real_url'', PUrl ''http://example.org/a'' (Some ''top'')),
      (''_url'', PUrl ''http://example.org/a'' None),
      (''_body'', PNone),
      (''_writer'', PNone),
      (''_continue'', PNone),
      (''_closed'', PBool True),
      (''_history'', PTuple []),
      (''_request_info'', PHandle LiveRequestInfo),
      (''_timer'', PHandle Timer),
      (''_cache'', PDict []),
      (''_traces'', PList []),
      (''_loop'', PHandle EventLoop),
      (''_session'', PHandle Session),
      (''_resolve_charset'', PHandle ResolveCharset),
      (''_content'', PStream (Stream [] True None [] 0)),
      (''created_at'', PDatetime 10),
      (''expires'', PNone),
      (''last_used'', PDatetime 10),
      (''from_cache'', PBool True),
      (''_headers'', PHeaders [(''Content-Type'', ''text/html; charset=utf-8'')]),
      (''_raw_headers'', PTuple [PTuple [PBytes [67, 111, 110, 116, 101, 110, 116, 45, 84, 121, 112, 101], PBytes [116, 101, 120, 116, 47, 104, 116, 109, 108, 59, 32, 99, 104, 97, 114, 115, 101, 116, 61, 117, 116, 102, 45, 56]]]),
      (''status'', PInt 200),
      (''_protocol'', PHandle Protocol),
      (''_connection'', PNone),
      (''version'', PTuple [PInt 1, PInt 1]),
      (''reason'', PStr ''OK''),
      (''_released'', PBool True),
      (''_encoding'', PStr ''utf-8'')]"



definition first_hop_snapshot :: attrs where
  "first_hop_snapshot =
     [(''method'', PStr ''GET''),
      (''cookies'', PDict []),
      (''_real_url'', PUrl ''http://example.org/a'' None),
      (''_url'', PUrl ''http://example.org/a'' None),
      (''_body'', PNone),
      (''_writer'', PNone),
      (''_continue'', PNone),
      (''_closed'', PBool True),
      (''_history'', PTuple []),
      (''_request_info'', PHandle LiveRequestInfo),
      (''_timer'', PHandle Timer),
      (''_cache'', PDict []),
      (''_traces'', PList []),
      (''_loop'', PHandle EventLoop),
      (''_session'', PHandle Session),
      (''_resolve_charset'', PHandle ResolveCharset),
      (''_content'', PStream (Stream [] True None [] 0)),
      (''created_at'', PDatetime 10),
      (''expires'', PNone),
      (''last_used'', PDatetime 10),
      (''from_cache'', PBool True),
      (''_headers'', PHeaders [(''Content-Type'', ''text/html; charset=utf-8'')]),
      (''_raw_headers'', PTuple [PTuple [PBytes [67, 111, 110, 116, 101, 110, 116, 45, 84, 121, 112, 101], PBytes [116, 101, 120, 116, 47, 104, 116, 109, 108, 59, 32, 99, 104, 97, 114, 115, 101, 116, 61, 117, 116, 102, 45, 56]]]),
      (''status'', PInt 301),
      (''_protocol'', PHandle Protocol),
      (''_connection'', PNone),
      (''version'', PTuple [PInt 1, PInt 1]),
      (''reason'', PStr ''Moved''),
      (''_released'', PBool True),
      (''_encoding'', PStr ''utf-8'')]"

definition second_hop_snapshot :: attrs where
  "second_hop_snapshot =
     [(''method'', PStr ''GET''),
      (''cookies'', PDict []),
      (''_real_url'', PUrl ''http://example.org/a'' None),
      (''_url'', PUrl ''http://example.org/a'' None),
      (''_body'', PBytes [103, 111]),
      (''_writer'', PNone),
      (''_continue'', PNone),
      (''_closed'', PBool True),
      (''_history'', PTuple []),
      (''_request_info'', PHandle LiveRequestInfo),
      (''_timer'', PHandle Timer),
      (''_cache'', PDict []),
      (''_traces'', PList []),
      (''_loop'', PHandle EventLoop),
      (''_session'', PHandle Session),
      (''_resolve_charset'', PHandle ResolveCharset),
      (''_content'', PStream (Stream [PBytes [103, 111]] True None [] 2)),
      (''created_at'', PDatetime 10),
      (''expires'', PNone),
      (''last_used'', PDatetime 10),
      (''from_cache'', PBool True),
      (''_headers'', PHeaders [(''Content-Type'', ''text/html; charset=utf-8'')]),
      (''_raw_headers'', PTuple [PTuple [PBytes [67, 111, 110, 116, 101, 110, 116, 45, 84, 121, 112, 101], PBytes [116, 101, 120, 116, 47, 104, 116, 109, 108, 59, 32, 99, 104, 97, 114, 115, 101, 116, 61, 117, 116, 102, 45, 56]]]),
      (''status'', PInt 302),
      (''_protocol'', PHandle Protocol),
      (''_connection'', PNone),
      (''version'', PTuple [PInt 1, PInt 1]),
      (''reason'', PStr ''Found''),
      (''_released'', PBool True),
      (''_encoding'', PStr ''utf-8'')]"

definition redirected_snapshot :: attrs where
  "redirected_snapshot =
     [(''method'', PStr ''GET''),
      (''cookies'', PDict []),
      (''_real_url'', PUrl ''http://example.org/a'' (Some ''top'')),
      (''_url'', PUrl ''http://example.org/a'' None),
      (''_body'', PBytes [104, 105]),
      (''_writer'', PNone),
      (''_continue'', PNone),
      (''_closed'', PBool True),
      (''_history'', PTuple [PObj CachedResponse first_hop_snapshot, PObj CachedResponse second_hop_snapshot]),
      (''_request_info'', PHandle LiveRequestInfo),
      (''_timer'', PHandle Timer),
      (''_cache'', PDict []),
      (''_traces'', PList []),
      (''_loop'', PHandle EventLoop),
      (''_session'', PHandle Session),
      (''_resolve_charset'', PHandle ResolveCharset),
      (''_content'', PStream (Stream [PBytes [104, 105]] True None [] 2)),
      (''created_at'', PDatetime 10),
      (''expires'', PDatetime 20),
      (''last_used'', PDatetime 10),
      (''from_cache'', PBool True),
      (''_headers'', PHeaders [(''Content-Type'', ''text/html; charset=utf-8'')]),
      (''_raw_headers'', PTuple [PTuple [PBytes [67, 111, 110, 116, 101, 110, 116, 45, 84, 121, 112, 101], PBytes [116, 101, 120, 116, 47, 104, 116, 109, 108, 59, 32, 99, 104, 97, 114, 115, 101, 116, 61, 117, 116, 102, 45, 56]]]),
      (''status'', PInt 200),
      (''_protocol'', PHandle Protocol),
      (''_connection'', PNone),
      (''version'', PTuple [PInt 1, PInt 1]),
      (''reason'', PStr ''OK''),
      (''_released'', PBool True),
      (''_encoding'', PStr ''utf-8'')]"

section \<open>Facts about the operations\<close>

subsection \<open>The replay stream and the expiration test\<close>

lemma await_data_ready: "buffer s \<noteq> [] \<or> eof s \<Longrightarrow> await_data s = Returns s"
  by (simp add: await_data.simps [of s])

lemma readany_at_eof: "readany (Stream [] True None p l) = Returns ([], Stream [] True None p l)"
  by (simp add: readany_def await_data_ready read_nowait_def)

lemma readany_buffered:
  "join_bytes (c # cs) = Inr d \<Longrightarrow>
     readany (Stream (c # cs) e None p l) = Returns (d, Stream [] e None p l)"
  by (simp add: readany_def await_data_ready read_nowait_def)

lemma stream_read_at_eof: "stream_read (Stream [] True None p l) = Returns ([], Stream [] True None p l)"
  by (simp add: stream_read_def read_blocks.simps [of "Stream [] True None p l"] readany_at_eof)

lemma read_blocks_at_eof:
  "read_blocks (Stream [] True None p l) blocks = Returns (concat blocks, Stream [] True None p l)"
  by (simp add: read_blocks.simps [of "Stream [] True None p l"] readany_at_eof)

lemma stream_read_replay:
  "stream_read (Stream [PBytes b] True None p l) = Returns (b, Stream [] True None p l)"
  by (simp add: stream_read_def read_blocks.simps [of "Stream [PBytes b] True None p l"]
        readany_buffered read_blocks_at_eof)

lemma CachedStreamReader_bytes:
  "CachedStreamReader (PBytes b) = Inr (Stream (if b = [] then [] else [PBytes b]) True None [] (length b))"
  by (simp add: CachedStreamReader_def new_stream_def feed_data_def feed_eof_def)

lemma CachedStreamReader_falsy:
  "\<not> truthy body \<Longrightarrow> CachedStreamReader body = Inr (Stream [] True None [] 0)"
  by (simp add: CachedStreamReader_def new_stream_def feed_data_def feed_eof_def)

lemma CachedStreamReader_sized:
  "truthy body \<Longrightarrow> py_len body = Inr n \<Longrightarrow>
     CachedStreamReader body = Inr (Stream [body] True None [] n)"
  by (simp add: CachedStreamReader_def new_stream_def feed_data_def feed_eof_def)

lemma CachedStreamReader_unsized:
  "truthy body \<Longrightarrow> py_len body = Inl e \<Longrightarrow> CachedStreamReader body = Inl e"
  by (simp add: CachedStreamReader_def)

lemma stream_read_fresh:
  "stream_read (Stream (if b = [] then [] else [PBytes b]) True None [] n)
     = Returns (b, Stream [] True None [] n)"
  by (simp add: stream_read_at_eof stream_read_replay)

lemma CachedStreamReader_total_iff:
  "(\<exists>s. CachedStreamReader body = Inr s) \<longleftrightarrow> (\<not> truthy body \<or> (\<exists>n. py_len body = Inr n))"
proof (cases "truthy body")
  case False
  then show ?thesis by (simp add: CachedStreamReader_falsy)
next
  case True
  show ?thesis
  proof (cases "py_len body")
    case (Inl e)
    with True show ?thesis by (simp add: CachedStreamReader_unsized)
  next
    case (Inr n)
    with True show ?thesis by (simp add: CachedStreamReader_sized)
  qed
qed



subsection \<open>Dictionaries\<close>



lemma map_of_delete_filter: "AList.delete k d = filter (\<lambda>kv. fst kv \<noteq> k) d"
  by (induction d) (auto simp: AList.delete_eq)

lemma del_keys_Inr_iff:
  "distinct ks \<Longrightarrow>
     del_keys ks d = Inr st \<longleftrightarrow> (set ks \<subseteq> fst ` set d \<and> st = filter (\<lambda>kv. fst kv \<notin> set ks) d)"
proof (induction ks arbitrary: d)
  case Nil
  then show ?case by auto
next
  case (Cons k ks)
  have key: "map_of d k = None \<longleftrightarrow> k \<notin> fst ` set d"
    by (simp add: map_of_eq_None_iff)
  from Cons.prems have d: "distinct ks" and nk: "k \<notin> set ks" by simp_all
  have f: "filter (\<lambda>kv. fst kv \<notin> set ks) (filter (\<lambda>kv. fst kv \<noteq> k) d)
            = filter (\<lambda>kv. fst kv \<notin> set (k # ks)) d"
    by (induction d) auto
  have s: "fst ` set (filter (\<lambda>kv. fst kv \<noteq> k) d) = fst ` set d - {k}"
    by (induction d) auto
  show ?case
  proof (cases "k \<in> fst ` set d")
    case False
    then show ?thesis by (simp add: delitem_def key)
  next
    case True
    then have "del_keys (k # ks) d = del_keys ks (filter (\<lambda>kv. fst kv \<noteq> k) d)"
      by (simp add: delitem_def key map_of_delete_filter)
    moreover from nk have "set ks \<subseteq> fst ` set d - {k} \<longleftrightarrow> set ks \<subseteq> fst ` set d"
      by blast
    moreover note Cons.IH [OF d, of "filter (\<lambda>kv. fst kv \<noteq> k) d"]
    ultimately have "del_keys (k # ks) d = Inr st \<longleftrightarrow>
        (set ks \<subseteq> fst ` set d \<and> st = filter (\<lambda>kv. fst kv \<notin> set (k # ks)) d)"
      unfolding f s by simp
    with True show ?thesis by simp
  qed
qed

lemma distinct_excluded_keys: "distinct excluded_keys"
  by (simp add: excluded_keys_def)

lemma getstate_Inr_iff:
  "getstate self = Inr st \<longleftrightarrow>
     (set excluded_keys \<subseteq> fst ` set self \<and> st = filter (\<lambda>kv. fst kv \<notin> set excluded_keys) self)"
  unfolding getstate_def by (rule del_keys_Inr_iff [OF distinct_excluded_keys])

lemma map_of_filter_keys:
  "map_of (filter (\<lambda>kv. fst kv \<notin> K) d) k = (if k \<in> K then None else map_of d k)"
  by (induction d) auto




subsection \<open>Sequences of calls\<close>

lemma sequence_outcome_Returns:
  "sequence_outcome f xs = Returns ys \<Longrightarrow> list_all2 (\<lambda>x y. f x = Returns y) xs ys"
proof (induction xs arbitrary: ys)
  case Nil
  then show ?case by simp
next
  case (Cons x xs)
  from Cons.prems obtain y where y: "f x = Returns y"
    by (cases "f x") auto
  with Cons.prems obtain ys' where ys': "sequence_outcome f xs = Returns ys'"
    by (cases "sequence_outcome f xs") auto
  with y Cons.prems have "ys = y # ys'" by simp
  with y Cons.IH [OF ys'] show ?case by simp
qed


subsection \<open>The constructor\<close>

lemma CachedResponse_init_attrs:
  "CachedResponse_init ev a =
     [(''method'', arg_method a),
      (''cookies'', arg_cookies a),
      (''_real_url'', arg_url a),
      (''_url'', with_fragment_none (arg_url a)),
      (''_body'', arg_body a),
      (''_writer'', arg_writer a),
      (''_continue'', arg_continue100 a),
      (''_closed'', arg_closed a),
      (''_history'', arg_history a),
      (''_request_info'', arg_request_info a),
      (''_timer'', (if arg_timer a = PNone then PHandle Timer else arg_timer a)),
      (''_cache'', PDict []),
      (''_traces'', arg_traces a),
      (''_loop'', arg_loop a),
      (''_session'', arg_session a),
      (''_resolve_charset'', PHandle ResolveCharset),
      (''_content'', arg_content a),
      (''created_at'', PDatetime (utcnow ev)),
      (''expires'', PNone),
      (''last_used'', PDatetime (utcnow ev)),
      (''from_cache'', PBool True),
      (''_headers'', arg_headers a),
      (''_raw_headers'', arg_raw_headers a),
      (''status'', arg_status a),
      (''_protocol'', arg_protocol a),
      (''_connection'', arg_connection a),
      (''version'', arg_version a),
      (''reason'', arg_reason a),
      (''_released'', arg_released a)]"
  by (simp add: CachedResponse_init_def ClientResponse_init_def dict_update_def)



subsection \<open>The accessors\<close>

lemma setattr_twice: "setattr (setattr d k v) k v' = setattr d k v'"
  by (simp add: setattr_def)

lemma content_fresh:
  "getattr self ''_content'' = Inr PNone \<Longrightarrow> getattr self ''_body'' = Inr body \<Longrightarrow>
     CachedStreamReader body = Inr s \<Longrightarrow>
     content self = Inr (PStream s, setattr self ''_content'' (PStream s))"
  by (simp add: content_def)

lemma content_stored:
  "getattr self ''_content'' = Inr c \<Longrightarrow> c \<noteq> PNone \<Longrightarrow> content self = Inr (c, self)"
  by (simp add: content_def)



lemma read_content_fresh:
  assumes "getattr self ''_content'' = Inr PNone" and "getattr self ''_body'' = Inr (PBytes b)"
  shows "read_content self
           = Returns (b, setattr self ''_content'' (PStream (Stream [] True None [] (length b))))"
proof -
  let ?s = "Stream (if b = [] then [] else [PBytes b]) True None [] (length b)"
  from content_fresh [OF assms CachedStreamReader_bytes]
  have "content self = Inr (PStream ?s, setattr self ''_content'' (PStream ?s))" .
  then show ?thesis
    by (simp add: read_content_def stream_read_fresh setattr_twice)
qed

lemma read_content_absent_body:
  assumes "getattr self ''_content'' = Inr PNone" and "getattr self ''_body'' = Inr PNone"
  shows "read_content self
           = Returns ([], setattr self ''_content'' (PStream (Stream [] True None [] 0)))"
proof -
  have "CachedStreamReader PNone = Inr (Stream [] True None [] 0)"
    by (simp add: CachedStreamReader_falsy)
  from content_fresh [OF assms this] show ?thesis
    by (simp add: read_content_def stream_read_at_eof setattr_twice)
qed

lemma getattr_reset: "getattr (reset self) k = (if k = ''_content'' then Inr PNone else getattr self k)"
  by (simp add: reset_def getattr_setattr)

lemma request_info_derived:
  "getattr self ''_url'' = Inr u \<Longrightarrow> getattr self ''method'' = Inr m \<Longrightarrow>
     getattr self ''_headers'' = Inr h \<Longrightarrow> request_info self = Inr (PRequestInfo u m h u)"
  by (simp add: request_info_def url_def headers_def)

subsection \<open>\<open>__setstate__\<close>\<close>

lemma keys_dict_update: "fst ` set (dict_update d other) = fst ` set d \<union> fst ` set other"
  unfolding dict_update_def
  by (induction other arbitrary: d) (auto simp: dom_update)

lemma setstate_cases:
  assumes "setstate ev self state = Inr view"
  obtains raw hs pairs where
    "getattr (dict_update self state) ''_raw_headers'' = Inr raw"
    "py_iter raw = Inr hs"
    "sequence_sum (decode_header ev) hs = Inr pairs"
    "view = setattr (setattr (setattr (dict_update self state) ''_cache'' (PDict []))
                       ''_content'' PNone) ''_headers'' (PHeaders pairs)"
proof -
  let ?d = "setattr (setattr (dict_update self state) ''_cache'' (PDict [])) ''_content'' PNone"
  from assms obtain raw where raw: "getattr ?d ''_raw_headers'' = Inr raw"
    unfolding setstate_def Let_def by (cases "getattr ?d ''_raw_headers''") auto
  with assms obtain hs where hs: "py_iter raw = Inr hs"
    unfolding setstate_def Let_def by (cases "py_iter raw") auto
  with assms raw obtain pairs where p: "sequence_sum (decode_header ev) hs = Inr pairs"
    unfolding setstate_def Let_def by (cases "sequence_sum (decode_header ev) hs") auto
  with assms raw hs have "view = setattr ?d ''_headers'' (PHeaders pairs)"
    unfolding setstate_def Let_def by simp
  moreover from raw have "getattr (dict_update self state) ''_raw_headers'' = Inr raw"
    by (simp add: getattr_setattr)
  ultimately show thesis using hs p that by blast
qed

lemma setstate_attr:
  assumes "setstate ev self state = Inr view"
  shows "getattr view ''_content'' = Inr PNone"
    and "getattr view ''_cache'' = Inr (PDict [])"
    and "\<exists>pairs. getattr view ''_headers'' = Inr (PHeaders pairs)"
    and "k \<noteq> ''_content'' \<Longrightarrow> k \<noteq> ''_cache'' \<Longrightarrow> k \<noteq> ''_headers'' \<Longrightarrow>
           map_of view k = map_of (dict_update self state) k"
  using assms by (auto elim!: setstate_cases simp: getattr_setattr map_of_setattr)

subsection \<open>Reading a live stream\<close>

lemma await_data_skip_empty:
  "await_data (Stream [] False None (FeedData [] # p) l) = await_data (Stream [] False None p l)"
  by (simp add: await_data.simps [of "Stream [] False None (FeedData [] # p) l"] feed_data_def)

lemma await_data_chunk:
  "c \<noteq> [] \<Longrightarrow>
     await_data (Stream [] False None (FeedData c # p) l) = Returns (Stream [PBytes c] False None p l)"
  by (simp add: await_data.simps [of "Stream [] False None (FeedData c # p) l"] feed_data_def
        await_data_ready)

lemma await_data_feed_eof:
  "await_data (Stream [] False None (FeedEof # p) l) = Returns (Stream [] True None p l)"
  by (simp add: await_data.simps [of "Stream [] False None (FeedEof # p) l"] feed_eof_def
        await_data_ready)

lemma read_blocks_skip_empty:
  "read_blocks (Stream [] False None (FeedData [] # p) l) blocks
     = read_blocks (Stream [] False None p l) blocks"
  by (simp add: read_blocks.simps [of "Stream [] False None (FeedData [] # p) l"]
        read_blocks.simps [of "Stream [] False None p l"] readany_def await_data_skip_empty)

lemma read_blocks_chunk:
  "c \<noteq> [] \<Longrightarrow>
     read_blocks (Stream [] False None (FeedData c # p) l) blocks
       = read_blocks (Stream [] False None p l) (blocks @ [c])"
  by (simp add: read_blocks.simps [of "Stream [] False None (FeedData c # p) l"]
        readany_def await_data_chunk read_nowait_def)

lemma read_blocks_feed_eof:
  "read_blocks (Stream [] False None (FeedEof # p) l) blocks
     = Returns (concat blocks, Stream [] True None p l)"
  by (simp add: read_blocks.simps [of "Stream [] False None (FeedEof # p) l"]
        readany_def await_data_feed_eof read_nowait_def)

lemma read_blocks_delivery:
  "read_blocks (Stream [] False None (map FeedData cs @ FeedEof # p) l) blocks
     = Returns (concat blocks @ concat cs, Stream [] True None p l)"
proof (induction cs arbitrary: blocks)
  case Nil
  show ?case by (simp add: read_blocks_feed_eof)
next
  case (Cons c cs)
  show ?case
  proof (cases "c = []")
    case True
    with Cons.IH [of blocks] show ?thesis by (simp add: read_blocks_skip_empty)
  next
    case False
    with Cons.IH [of "blocks @ [c]"] show ?thesis by (simp add: read_blocks_chunk)
  qed
qed

lemma stream_read_delivery:
  "stream_read (Stream [] False None (map FeedData cs @ FeedEof # p) l)
     = Returns (concat cs, Stream [] True None p l)"
  by (simp add: stream_read_def read_blocks_delivery)

lemma stream_read_starved: "stream_read (Stream [] False None [] l) = Blocks"
  by (simp add: stream_read_def read_blocks.simps [of "Stream [] False None [] l"] readany_def
        await_data.simps [of "Stream [] False None [] l"])

subsection \<open>\<open>read()\<close> and the first part of \<open>postprocess\<close>\<close>


lemma ClientResponse_read_cases:
  assumes "ClientResponse_read self = Returns self1"
  shows "(\<exists>b. getattr self ''_body'' = Inr b \<and> b \<noteq> PNone \<and> self1 = self)
       \<or> (\<exists>data self'. getattr self ''_body'' = Inr PNone
              \<and> read_content self = Returns (data, self')
              \<and> self1 = setattr self' ''_body'' (PBytes data))"
proof -
  from assms obtain b where b: "getattr self ''_body'' = Inr b"
    unfolding ClientResponse_read_def by (cases "getattr self ''_body''") auto
  show ?thesis
  proof (cases "b = PNone")
    case True
    with assms b obtain r where r: "read_content self = Returns r"
      unfolding ClientResponse_read_def by (cases "read_content self") auto
    with assms b True have "self1 = setattr (snd r) ''_body'' (PBytes (fst r))"
      unfolding ClientResponse_read_def by (auto split: prod.splits)
    with b True r show ?thesis by (cases r) auto
  next
    case False
    with assms b obtain rel where "getattr self ''_released'' = Inr rel"
      unfolding ClientResponse_read_def by (cases "getattr self ''_released''") auto
    with assms b False have "self1 = self"
      unfolding ClientResponse_read_def by (auto split: if_splits)
    with b False show ?thesis by simp
  qed
qed






lemma postprocess_body_result:
  assumes "postprocess_body self expires = Returns self2"
  shows "getattr self2 ''expires'' = Inr expires"
    and "\<exists>b s. getattr self2 ''_body'' = Inr b \<and> CachedStreamReader b = Inr s
              \<and> getattr self2 ''_content'' = Inr (PStream s)"
proof -
  from assms obtain released self1 b s where
    b: "getattr self1 ''_body'' = Inr b" and s: "CachedStreamReader b = Inr s"
    and e: "self2 = setattr (set_content self1 (PStream s)) ''expires'' expires"
    by (rule postprocess_body_cases)
  from e show "getattr self2 ''expires'' = Inr expires" by (simp add: getattr_setattr)
  from e b s show "\<exists>b s. getattr self2 ''_body'' = Inr b \<and> CachedStreamReader b = Inr s
              \<and> getattr self2 ''_content'' = Inr (PStream s)"
    by (auto simp: getattr_setattr set_content_def)
qed

lemma postprocess_body_released:
  assumes "postprocess_body self expires = Returns self2"
    and "getattr self ''_released'' = Inr released" and "truthy released"
  shows "getattr self2 ''_body'' = getattr self ''_body''"
proof -
  from assms(1) obtain released' self1 b s where
    r: "getattr self ''_released'' = Inr released'"
    and m: "(if \<not> truthy released' then ClientResponse_read self else Returns self) = Returns self1"
    and e: "self2 = setattr (set_content self1 (PStream s)) ''expires'' expires"
    by (rule postprocess_body_cases)
  from r assms(2,3) m have "self1 = self" by simp
  with e show ?thesis by (simp add: getattr_setattr set_content_def)
qed

lemma postprocess_body_drained:
  assumes "postprocess_body self expires = Returns self2"
    and "getattr self ''_released'' = Inr released" and "\<not> truthy released"
    and "getattr self ''_body'' = Inr PNone"
  shows "\<exists>data self'. read_content self = Returns (data, self')
            \<and> getattr self2 ''_body'' = Inr (PBytes data)"
proof -
  from assms(1) obtain released' self1 b s where
    r: "getattr self ''_released'' = Inr released'"
    and m: "(if \<not> truthy released' then ClientResponse_read self else Returns self) = Returns self1"
    and e: "self2 = setattr (set_content self1 (PStream s)) ''expires'' expires"
    by (rule postprocess_body_cases)
  from r assms(2,3) m have "ClientResponse_read self = Returns self1" by simp
  from ClientResponse_read_cases [OF this] assms(4) obtain data self' where
    "read_content self = Returns (data, self')" "self1 = setattr self' ''_body'' (PBytes data)"
    by auto
  with e show ?thesis by (simp add: getattr_setattr set_content_def)
qed

subsection \<open>\<open>postprocess\<close> as a whole\<close>

lemma postprocess_unfold:
  "postprocess ev self expires =
     (case postprocess_body self expires of
        Raises e \<Rightarrow> Raises e
      | Blocks \<Rightarrow> Blocks
      | Returns self1 \<Rightarrow>
          (case getattr self1 ''_history'' of
             Inl e \<Rightarrow> Raises e
           | Inr h \<Rightarrow>
               (case postprocess_history ev self1 h of
                  Raises e \<Rightarrow> Raises e
                | Blocks \<Rightarrow> Blocks
                | Returns self2 \<Rightarrow>
                    (case base_get_encoding ev self2 of
                       Inl e \<Rightarrow> Raises e
                     | Inr enc \<Rightarrow> Returns (setattr self2 ''_encoding'' (PStr enc))))))"
  unfolding postprocess_history_def postprocess_entry_def
  by (subst postprocess.simps) (rule refl)

lemma postprocess_cases:
  assumes "postprocess ev self expires = Returns snap"
  obtains self1 h self2 enc where
    "postprocess_body self expires = Returns self1"
    "getattr self1 ''_history'' = Inr h"
    "postprocess_history ev self1 h = Returns self2"
    "base_get_encoding ev self2 = Inr enc"
    "snap = setattr self2 ''_encoding'' (PStr enc)"
proof -
  from assms obtain self1 where b: "postprocess_body self expires = Returns self1"
    unfolding postprocess_unfold by (cases "postprocess_body self expires") auto
  with assms obtain h where h: "getattr self1 ''_history'' = Inr h"
    unfolding postprocess_unfold by (cases "getattr self1 ''_history''") auto
  with assms b obtain self2 where s: "postprocess_history ev self1 h = Returns self2"
    unfolding postprocess_unfold by (cases "postprocess_history ev self1 h") auto
  with assms b h obtain enc where e: "base_get_encoding ev self2 = Inr enc"
    unfolding postprocess_unfold by (cases "base_get_encoding ev self2") auto
  with assms b h s have "snap = setattr self2 ''_encoding'' (PStr enc)"
    unfolding postprocess_unfold by simp
  with b h s e that show thesis by blast
qed

lemma postprocess_history_cases:
  assumes "postprocess_history ev self1 h = Returns self2"
  shows "(\<not> truthy h \<and> self2 = self1)
       \<or> (\<exists>rs hs. truthy h \<and> py_iter h = Inr rs
              \<and> sequence_outcome (postprocess_entry ev) rs = Returns hs
              \<and> self2 = setattr self1 ''_history'' (PTuple hs))"
proof (cases "truthy h")
  case False
  with assms show ?thesis by (simp add: postprocess_history_def)
next
  case True
  with assms obtain rs where rs: "py_iter h = Inr rs"
    unfolding postprocess_history_def by (cases "py_iter h") auto
  with assms True obtain hs where hs: "sequence_outcome (postprocess_entry ev) rs = Returns hs"
    unfolding postprocess_history_def
    by (cases "sequence_outcome (postprocess_entry ev) rs") auto
  with assms True rs show ?thesis by (simp add: postprocess_history_def)
qed


lemma postprocess_history_other:
  "postprocess_history ev self1 h = Returns self2 \<Longrightarrow> k \<noteq> ''_history'' \<Longrightarrow>
     getattr self2 k = getattr self1 k"
  by (auto dest!: postprocess_history_cases simp: getattr_setattr)


lemma postprocess_expires:
  assumes "postprocess ev self expires = Returns snap"
  shows "getattr snap ''expires'' = Inr expires"
proof -
  from assms obtain self1 h self2 enc where
    b: "postprocess_body self expires = Returns self1"
    and s: "postprocess_history ev self1 h = Returns self2"
    and e: "snap = setattr self2 ''_encoding'' (PStr enc)"
    by (rule postprocess_cases)
  from postprocess_body_result(1) [OF b] postprocess_history_other [OF s, of "''expires''"] e
  show ?thesis by (simp add: getattr_setattr)
qed

lemma postprocess_replay:
  assumes "postprocess ev self expires = Returns snap"
  shows "\<exists>b s. getattr snap ''_body'' = Inr b \<and> CachedStreamReader b = Inr s
            \<and> getattr snap ''_content'' = Inr (PStream s)"
proof -
  from assms obtain self1 h self2 enc where
    b: "postprocess_body self expires = Returns self1"
    and s: "postprocess_history ev self1 h = Returns self2"
    and e: "snap = setattr self2 ''_encoding'' (PStr enc)"
    by (rule postprocess_cases)
  from postprocess_body_result(2) [OF b]
    postprocess_history_other [OF s, of "''_body''"]
    postprocess_history_other [OF s, of "''_content''"] e
  show ?thesis by (simp add: getattr_setattr)
qed

lemma postprocess_body_of:
  assumes "postprocess ev self expires = Returns snap"
  obtains self1 where "postprocess_body self expires = Returns self1"
    "getattr snap ''_body'' = getattr self1 ''_body''"
proof -
  from assms obtain self1 h self2 enc where
    b: "postprocess_body self expires = Returns self1"
    and s: "postprocess_history ev self1 h = Returns self2"
    and e: "snap = setattr self2 ''_encoding'' (PStr enc)"
    by (rule postprocess_cases)
  from postprocess_history_other [OF s, of "''_body''"] e
  have "getattr snap ''_body'' = getattr self1 ''_body''" by (simp add: getattr_setattr)
  with b that show thesis by blast
qed



lemma postprocess_entry_cases:
  assumes "postprocess_entry ev r = Returns y"
  obtains c c' where "from_history ev r = Inr c" "postprocess ev c PNone = Returns c'"
    "y = PObj CachedResponse c'"
proof -
  from assms obtain c where c: "from_history ev r = Inr c"
    unfolding postprocess_entry_def by (cases "from_history ev r") auto
  with assms obtain c' where c': "postprocess ev c PNone = Returns c'"
    unfolding postprocess_entry_def by (cases "postprocess ev c PNone") auto
  with assms c have "y = PObj CachedResponse c'" by (simp add: postprocess_entry_def)
  with c c' that show thesis by blast
qed

subsection \<open>Storing and loading a snapshot\<close>





lemma reread_bytes:
  "getattr v ''_body'' = Inr (PBytes b) \<Longrightarrow> \<exists>v'. reread n v = Returns (replicate n b, v')"
proof (induction n arbitrary: v)
  case 0
  show ?case by simp
next
  case (Suc n)
  let ?v1 = "setattr (reset v) ''_content'' (PStream (Stream [] True None [] (length b)))"
  from Suc.prems have "read_content (reset v) = Returns (b, ?v1)"
    by (intro read_content_fresh) (simp_all add: getattr_reset)
  moreover from Suc.prems have "getattr ?v1 ''_body'' = Inr (PBytes b)"
    by (simp add: getattr_setattr getattr_reset)
  from Suc.IH [OF this] obtain v' where "reread n ?v1 = Returns (replicate n b, v')" ..
  ultimately show ?case by simp
qed

lemma py_iter_falsy: "py_iter h = Inr hs \<Longrightarrow> \<not> truthy h \<Longrightarrow> hs = []"
  by (cases h) auto

subsection \<open>Replaying a captured body\<close>

lemma read_content_replayed:
  assumes "getattr self ''_content'' = Inr PNone" and "getattr self ''_body'' = Inr body"
    and "replayed body = Some B"
  shows "read_content self
           = Returns (B, setattr self ''_content'' (PStream (Stream [] True None [] (length B))))"
proof (cases body)
  case PNone
  with assms read_content_absent_body [of self] show ?thesis by simp
next
  case (PBytes b)
  with assms read_content_fresh [of self b] show ?thesis by simp
qed (use assms in simp_all)

lemma read_content_stored:
  assumes "getattr self ''_content'' = Inr (PStream s)" and "stream_read s = Returns (data, s')"
  shows "read_content self = Returns (data, setattr self ''_content'' (PStream s'))"
proof -
  from assms(1) have "content self = Inr (PStream s, self)" by (simp add: content_stored)
  with assms(2) show ?thesis by (simp add: read_content_def)
qed

lemma CachedStreamReader_replayed:
  assumes "CachedStreamReader body = Inr s" and "replayed body = Some B"
  shows "stream_read s = Returns (B, Stream [] True None [] (length B))"
proof (cases body)
  case PNone
  with assms show ?thesis by (auto simp: CachedStreamReader_falsy stream_read_at_eof)
next
  case (PBytes b)
  with assms show ?thesis by (auto simp: CachedStreamReader_bytes stream_read_fresh)
qed (use assms in simp_all)





section \<open>The operations on the example responses\<close>

lemma env_at_sel:
  "utcnow (env_at now) = now"
  "utf8_decode (env_at now) = map (\<lambda>b. char_of (unat b))"
  "base_get_encoding (env_at now) = example_get_encoding"
  by (simp_all add: env_at_def)

lemmas eval_simps =
  postprocess_unfold postprocess_body_def postprocess_history_def postprocess_entry_def
  from_history_def and_then_def attr_of_def content_of_def
  ClientResponse_read_def read_content_def content_def set_content_def
  stream_read_def read_blocks_chunk read_blocks_skip_empty read_blocks_feed_eof
  read_blocks_at_eof new_stream_def
  CachedStreamReader_bytes CachedStreamReader_falsy
  getattr_def setattr_def CachedResponse_init_attrs response_args_def env_at_def
  example_get_encoding_def ClientResponse_received_def ClientResponse_init_def dict_update_def

lemma live_snapshot_eval:
  "postprocess (env_at 10) live_response (PDatetime 20) = Returns live_snapshot"
  by (simp add: eval_simps live_response_def live_snapshot_def)

lemma released_snapshot_eval:
  "postprocess (env_at 10) released_response PNone = Returns released_snapshot"
  by (simp add: eval_simps released_response_def released_snapshot_def)


lemma first_hop_eval:
  "postprocess_entry (env_at 10) first_hop = Returns (PObj CachedResponse first_hop_snapshot)"
  by (simp add: eval_simps first_hop_def first_hop_snapshot_def)

lemma second_hop_eval:
  "postprocess_entry (env_at 10) second_hop = Returns (PObj CachedResponse second_hop_snapshot)"
  by (simp add: eval_simps second_hop_def second_hop_snapshot_def)

lemma redirected_snapshot_eval:
  "postprocess (env_at 10) redirected_response (PDatetime 20) = Returns redirected_snapshot"
  by (simp add: postprocess_unfold postprocess_body_def postprocess_history_def
        first_hop_eval second_hop_eval set_content_def CachedStreamReader_bytes
        getattr_def setattr_def CachedResponse_init_attrs response_args_def env_at_sel
        example_get_encoding_def redirected_response_def redirected_snapshot_def)

lemmas state_simps =
  getstate_def excluded_keys_def delitem_def AList.delete_eq
  setstate_def dict_update_def decode_header_def getattr_def setattr_def env_at_def

lemma live_state_eval: "getstate live_snapshot = Inr live_state"
  by (simp add: state_simps live_snapshot_def live_state_def)

lemma live_view_eval: "setstate (env_at 10) [] live_state = Inr live_view"
  by (simp add: state_simps live_state_def live_view_def char_of_def bit_0)




lemma live_view_body: "getattr live_view ''_body'' = Inr (PBytes [104, 105])"
  by (simp add: getattr_def live_view_def)

lemma redirected_history:
  "getattr redirected_snapshot ''_history''
     = Inr (PTuple [PObj CachedResponse first_hop_snapshot, PObj CachedResponse second_hop_snapshot])"
  by (simp add: getattr_def redirected_snapshot_def)

section \<open>The claims\<close>



text \<open>
  C5. A replay stream built over the bytes \<open>b\<close> has its end-of-file flag set at once and no
  protocol call outstanding, so a read never waits; a full read returns exactly \<open>b\<close> and
  leaves the stream at its end. Reading through the \<open>content\<close> accessor of a response
  whose body is \<open>b\<close> gives \<open>b\<close> and changes nothing but the stored stream: the body is still
  \<open>b\<close>, so every fresh stream over it reads the same bytes.
\<close>

theorem replay_stream_reads_body:
  "(\<exists>s d. CachedStreamReader (PBytes b) = Inr s \<and> is_eof s \<and> pending s = []
           \<and> stream_read s = Returns (b, d) \<and> at_eof d)
   \<and> (\<exists>d. read_content (setattr (setattr self ''_body'' (PBytes b)) ''_content'' PNone)
             = Returns (b, setattr (setattr (setattr self ''_body'' (PBytes b)) ''_content'' PNone)
                             ''_content'' (PStream d))
           \<and> getattr (setattr (setattr (setattr self ''_body'' (PBytes b)) ''_content'' PNone)
                         ''_content'' (PStream d)) ''_body'' = Inr (PBytes b))"
proof -
  let ?s = "Stream (if b = [] then [] else [PBytes b]) True None [] (length b)"
  let ?d = "Stream [] True None [] (length b)"
  let ?self = "setattr (setattr self ''_body'' (PBytes b)) ''_content'' PNone"
  have c: "CachedStreamReader (PBytes b) = Inr ?s" by (rule CachedStreamReader_bytes)
  have r: "stream_read ?s = Returns (b, ?d)" by (rule stream_read_fresh)
  have "is_eof ?s" "pending ?s = []" "at_eof ?d" by (simp_all add: is_eof_def at_eof_def)
  with c r have first: "\<exists>s d. CachedStreamReader (PBytes b) = Inr s \<and> is_eof s \<and> pending s = []
           \<and> stream_read s = Returns (b, d) \<and> at_eof d" by blast
  have "content ?self = Inr (PStream ?s, setattr ?self ''_content'' (PStream ?s))"
    by (simp add: content_def getattr_setattr c)
  then have "read_content ?self = Returns (b, setattr (setattr ?self ''_content'' (PStream ?s)) ''_content'' (PStream ?d))"
    by (simp add: read_content_def r)
  moreover have "setattr (setattr ?self ''_content'' (PStream ?s)) ''_content'' (PStream ?d)
                   = setattr ?self ''_content'' (PStream ?d)"
    by (simp add: setattr_def)
  moreover have "getattr (setattr ?self ''_content'' (PStream ?d)) ''_body'' = Inr (PBytes b)"
    by (simp add: getattr_setattr)
  ultimately show ?thesis using first by auto
qed

text \<open>
  C6, as the code has it. The constructor normalises a \<open>None\<close> body to the empty bytes and
  then gives a stream whose full read is empty; it returns for every bytes body, and in
  general exactly for a body that is falsy or has a length. (A truthy body without a
  length makes \<open>len(body)\<close> raise, see the counterexample.)
\<close>

theorem replay_stream_construction:
  "CachedStreamReader PNone = CachedStreamReader (PBytes [])
   \<and> (\<exists>s. CachedStreamReader PNone = Inr s \<and> stream_read s = Returns ([], s))
   \<and> (\<forall>b. \<exists>s. CachedStreamReader (PBytes b) = Inr s)
   \<and> ((\<exists>s. CachedStreamReader body = Inr s)
        \<longleftrightarrow> (\<not> truthy body \<or> (\<exists>n. py_len body = Inr n)))"
  by (simp add: CachedStreamReader_falsy CachedStreamReader_bytes stream_read_at_eof
        CachedStreamReader_total_iff)

theorem replay_stream_construction_witness:
  "\<exists>s. CachedStreamReader (PStr ''ab'') = Inr s"
  using replay_stream_construction [of "PStr ''ab''"] by simp

theorem replay_stream_construction_counterexample:
  "CachedStreamReader (PInt 5) = Inl TypeError"
  by (simp add: CachedStreamReader_def)

text \<open>
  C8. A rehydrated view holds no stream: the first access to \<open>content\<close> builds a replay
  stream from the body and stores it. After a full read the stored stream is at its end,
  and \<open>content\<close> keeps returning it; \<open>reset()\<close> discards it, the next access builds a new
  stream from the body, and the full read after the reset returns the same bytes as the
  first.
\<close>

theorem content_lazy_reset:
  assumes "setstate ev self0 state = Inr view"
    and "getattr view ''_body'' = Inr (PBytes b)"
  shows "getattr view ''_content'' = Inr PNone
       \<and> (\<exists>s d v1 v2.
             CachedStreamReader (PBytes b) = Inr s
           \<and> content view = Inr (PStream s, set_content view (PStream s))
           \<and> read_content view = Returns (b, v1)
           \<and> content v1 = Inr (PStream d, v1) \<and> at_eof d
           \<and> getattr (reset v1) ''_content'' = Inr PNone
           \<and> content (reset v1) = Inr (PStream s, set_content (reset v1) (PStream s))
           \<and> read_content (reset v1) = Returns (b, v2))"
proof -
  let ?s = "Stream (if b = [] then [] else [PBytes b]) True None [] (length b)"
  let ?d = "Stream [] True None [] (length b)"
  let ?v1 = "setattr view ''_content'' (PStream ?d)"
  let ?v2 = "setattr (reset ?v1) ''_content'' (PStream ?d)"
  have none: "getattr view ''_content'' = Inr PNone"
    using assms(1) by (rule setstate_attr(1))
  have s: "CachedStreamReader (PBytes b) = Inr ?s" by (rule CachedStreamReader_bytes)
  have c: "content view = Inr (PStream ?s, set_content view (PStream ?s))"
    unfolding set_content_def by (rule content_fresh [OF none assms(2) s])
  have r1: "read_content view = Returns (b, ?v1)"
    by (rule read_content_fresh [OF none assms(2)])
  have c1: "content ?v1 = Inr (PStream ?d, ?v1)"
    by (rule content_stored) (simp_all add: getattr_setattr)
  have e: "at_eof ?d" by (simp add: at_eof_def)
  have n1: "getattr (reset ?v1) ''_content'' = Inr PNone" by (simp add: getattr_reset)
  have b1: "getattr (reset ?v1) ''_body'' = Inr (PBytes b)"
    using assms(2) by (simp add: getattr_reset getattr_setattr)
  have c2: "content (reset ?v1) = Inr (PStream ?s, set_content (reset ?v1) (PStream ?s))"
    unfolding set_content_def by (rule content_fresh [OF n1 b1 s])
  have r2: "read_content (reset ?v1) = Returns (b, ?v2)"
    by (rule read_content_fresh [OF n1 b1])
  from none s c r1 c1 e n1 c2 r2 show ?thesis by blast
qed

theorem content_lazy_reset_witness:
  "getattr live_view ''_content'' = Inr PNone
   \<and> (\<exists>s d v1 v2.
         CachedStreamReader (PBytes [104, 105]) = Inr s
       \<and> content live_view = Inr (PStream s, set_content live_view (PStream s))
       \<and> read_content live_view = Returns ([104, 105], v1)
       \<and> content v1 = Inr (PStream d, v1) \<and> at_eof d
       \<and> getattr (reset v1) ''_content'' = Inr PNone
       \<and> content (reset v1) = Inr (PStream s, set_content (reset v1) (PStream s))
       \<and> read_content (reset v1) = Returns ([104, 105], v2))"
  by (rule content_lazy_reset [OF live_view_eval live_view_body])

text \<open>
  C9. The serialized state has no \<open>_request_info\<close>, and neither has the object that
  \<open>__setstate__\<close> builds from it. The \<open>request_info\<close> accessor is computed from \<open>_url\<close>,
  \<open>method\<close> and \<open>_headers\<close> at each access: a stored \<open>_request_info\<close> would not change it,
  and new headers show in it at once.
\<close>

theorem request_info_not_stored:
  assumes "getstate snap = Inr state" and "setstate ev [] state = Inr view"
  shows "map_of state ''_request_info'' = None
       \<and> getattr view ''_request_info'' = Inl AttributeError
       \<and> (\<forall>u m h. getattr view ''_url'' = Inr u \<and> getattr view ''method'' = Inr m
                   \<and> getattr view ''_headers'' = Inr h
            \<longrightarrow> request_info view = Inr (PRequestInfo u m h u)
              \<and> (\<forall>x. request_info (setattr view ''_request_info'' x) = Inr (PRequestInfo u m h u))
              \<and> (\<forall>h'. request_info (set_headers view h') = Inr (PRequestInfo u m h' u)))"
proof -
  from assms(1) have st: "state = filter (\<lambda>kv. fst kv \<notin> set excluded_keys) snap"
    by (simp add: getstate_Inr_iff)
  have ex: "''_request_info'' \<in> set excluded_keys" by (simp add: excluded_keys_def)
  from st ex have a: "map_of state ''_request_info'' = None"
    by (simp only: map_of_filter_keys if_True)
  then have "''_request_info'' \<notin> fst ` set state" by (simp add: map_of_eq_None_iff)
  then have "''_request_info'' \<notin> fst ` set (dict_update [] state)"
    by (simp add: keys_dict_update)
  then have "map_of (dict_update [] state) ''_request_info'' = None"
    by (simp add: map_of_eq_None_iff)
  with setstate_attr(4) [OF assms(2), of "''_request_info''"]
  have b: "getattr view ''_request_info'' = Inl AttributeError"
    by (simp add: getattr_def)
  have c: "request_info view = Inr (PRequestInfo u m h u)
         \<and> (\<forall>x. request_info (setattr view ''_request_info'' x) = Inr (PRequestInfo u m h u))
         \<and> (\<forall>h'. request_info (set_headers view h') = Inr (PRequestInfo u m h' u))"
    if "getattr view ''_url'' = Inr u" "getattr view ''method'' = Inr m"
       "getattr view ''_headers'' = Inr h" for u m h
    using that by (simp add: request_info_derived getattr_setattr set_headers_def)
  from a b c show ?thesis by blast
qed

theorem request_info_not_stored_witness:
  "map_of live_state ''_request_info'' = None
   \<and> getattr live_view ''_request_info'' = Inl AttributeError
   \<and> request_info live_view
       = Inr (PRequestInfo (PUrl ''http://example.org/a'' None) (PStr ''GET'')
                (PHeaders [(''Content-Type'', ''text/html; charset=utf-8'')]) (PUrl ''http://example.org/a'' None))
   \<and> request_info (set_headers live_view (PHeaders []))
       = Inr (PRequestInfo (PUrl ''http://example.org/a'' None) (PStr ''GET'')
                (PHeaders []) (PUrl ''http://example.org/a'' None))"
proof -
  note t = request_info_not_stored [OF live_state_eval live_view_eval]
  have p: "getattr live_view ''_url'' = Inr (PUrl ''http://example.org/a'' None)
         \<and> getattr live_view ''method'' = Inr (PStr ''GET'')
         \<and> getattr live_view ''_headers'' = Inr (PHeaders [(''Content-Type'', ''text/html; charset=utf-8'')])"
    by (simp add: getattr_def live_view_def)
  note a = t [THEN conjunct1]
  note b = t [THEN conjunct2, THEN conjunct1]
  note c = t [THEN conjunct2, THEN conjunct2]
  from c [rule_format, OF p]
  have "request_info live_view
          = Inr (PRequestInfo (PUrl ''http://example.org/a'' None) (PStr ''GET'')
                   (PHeaders [(''Content-Type'', ''text/html; charset=utf-8'')]) (PUrl ''http://example.org/a'' None))"
    and "\<forall>h'. request_info (set_headers live_view h')
          = Inr (PRequestInfo (PUrl ''http://example.org/a'' None) (PStr ''GET'') h'
                   (PUrl ''http://example.org/a'' None))"
    by simp_all
  with a b show ?thesis by simp
qed




text \<open>
  C10. Whatever expiration time \<open>postprocess\<close> is given, every entry of the history of the
  snapshot it returns is a \<open>CachedResponse\<close> whose \<open>expires\<close> is \<open>None\<close>, and so is not
  expired at any time.
\<close>

theorem history_entries_never_expire:
  assumes "postprocess ev self expires = Returns snap"
    and "getattr snap ''_history'' = Inr h" and "py_iter h = Inr hs"
  shows "\<forall>y \<in> set hs. \<exists>c. y = PObj CachedResponse c \<and> getattr c ''expires'' = Inr PNone
           \<and> (\<forall>ev'. is_expired ev' c = Inr False)"
proof -
  from assms(1) obtain self1 h1 self2 enc where
    h1: "getattr self1 ''_history'' = Inr h1"
    and s: "postprocess_history ev self1 h1 = Returns self2"
    and e: "snap = setattr self2 ''_encoding'' (PStr enc)"
    by (rule postprocess_cases)
  from e assms(2) have h2: "getattr self2 ''_history'' = Inr h" by (simp add: getattr_setattr)
  from postprocess_history_cases [OF s]
  show ?thesis
  proof (elim disjE exE conjE)
    assume "\<not> truthy h1" "self2 = self1"
    with h1 h2 assms(3) have "hs = []" by (auto dest: py_iter_falsy)
    then show ?thesis by simp
  next
    fix rs ys assume seq: "sequence_outcome (postprocess_entry ev) rs = Returns ys"
      and s2: "self2 = setattr self1 ''_history'' (PTuple ys)"
    from s2 h2 have "h = PTuple ys" by (simp add: getattr_setattr)
    with assms(3) have "hs = ys" by simp
    with sequence_outcome_Returns [OF seq]
    have all: "list_all2 (\<lambda>x y. postprocess_entry ev x = Returns y) rs hs" by simp
    show ?thesis
    proof
      fix y assume "y \<in> set hs"
      with all obtain x where "postprocess_entry ev x = Returns y"
        by (auto simp: list_all2_conv_all_nth in_set_conv_nth)
      then obtain c c' where p: "postprocess ev c PNone = Returns c'" and y: "y = PObj CachedResponse c'"
        by (rule postprocess_entry_cases)
      from postprocess_expires [OF p] have x: "getattr c' ''expires'' = Inr PNone" .
      then have "\<forall>ev'. is_expired ev' c' = Inr False"
        by (simp add: is_expired_def is_expired_try_def)
      with x y show "\<exists>c. y = PObj CachedResponse c \<and> getattr c ''expires'' = Inr PNone
           \<and> (\<forall>ev'. is_expired ev' c = Inr False)" by blast
    qed
  qed
qed

theorem history_entries_never_expire_witness:
  "getattr redirected_snapshot ''expires'' = Inr (PDatetime 20)
   \<and> getattr first_hop_snapshot ''expires'' = Inr PNone
   \<and> is_expired (env_at 1000) first_hop_snapshot = Inr False
   \<and> getattr second_hop_snapshot ''expires'' = Inr PNone
   \<and> is_expired (env_at 1000) second_hop_snapshot = Inr False"
proof -
  have it: "py_iter (PTuple [PObj CachedResponse first_hop_snapshot,
                             PObj CachedResponse second_hop_snapshot])
             = Inr [PObj CachedResponse first_hop_snapshot, PObj CachedResponse second_hop_snapshot]"
    by simp
  note t = history_entries_never_expire [OF redirected_snapshot_eval redirected_history it]
  from t have "\<exists>c. PObj CachedResponse first_hop_snapshot = PObj CachedResponse c
                 \<and> getattr c ''expires'' = Inr PNone \<and> (\<forall>ev'. is_expired ev' c = Inr False)"
    by simp
  then have 1: "getattr first_hop_snapshot ''expires'' = Inr PNone
              \<and> is_expired (env_at 1000) first_hop_snapshot = Inr False" by auto
  from t have "\<exists>c. PObj CachedResponse second_hop_snapshot = PObj CachedResponse c
                 \<and> getattr c ''expires'' = Inr PNone \<and> (\<forall>ev'. is_expired ev' c = Inr False)"
    by simp
  then have 2: "getattr second_hop_snapshot ''expires'' = Inr PNone
              \<and> is_expired (env_at 1000) second_hop_snapshot = Inr False" by auto
  have "getattr redirected_snapshot ''expires'' = Inr (PDatetime 20)"
    by (simp add: getattr_def redirected_snapshot_def)
  with 1 2 show ?thesis by blast
qed

text \<open>
  C3, as the code has it. \<open>postprocess\<close> records the given \<open>expires\<close> and stores, as the
  content of the response, a replay stream built over the captured body. A response that
  has not been released and whose body is still \<open>None\<close> is read first: the body becomes
  what a full read of its content returns, for a live stream every chunk up to the end
  of the stream. A released response is not read; its body stays as it is. Afterwards a
  holder of the object reads the captured bytes from the stored stream, and again after
  a \<open>reset()\<close>.
\<close>

theorem postprocess_freezes:
  assumes "postprocess ev self expires = Returns snap"
  shows "getattr snap ''expires'' = Inr expires
     \<and> (\<exists>b s. getattr snap ''_body'' = Inr b \<and> CachedStreamReader b = Inr s
               \<and> getattr snap ''_content'' = Inr (PStream s))
     \<and> (\<forall>released. getattr self ''_released'' = Inr released \<and> \<not> truthy released
                    \<and> getattr self ''_body'' = Inr PNone
          \<longrightarrow> (\<exists>data self'. read_content self = Returns (data, self')
                  \<and> getattr snap ''_body'' = Inr (PBytes data)))
     \<and> (\<forall>released cs p l. getattr self ''_released'' = Inr released \<and> \<not> truthy released
                    \<and> getattr self ''_body'' = Inr PNone
                    \<and> getattr self ''_content''
                        = Inr (PStream (Stream [] False None (map FeedData cs @ FeedEof # p) l))
          \<longrightarrow> getattr snap ''_body'' = Inr (PBytes (concat cs)))
     \<and> (\<forall>released. getattr self ''_released'' = Inr released \<and> truthy released
          \<longrightarrow> getattr snap ''_body'' = getattr self ''_body'')
     \<and> (\<forall>body B. getattr snap ''_body'' = Inr body \<and> replayed body = Some B
          \<longrightarrow> (\<exists>v. read_content snap = Returns (B, v))
            \<and> (\<exists>v. read_content (reset snap) = Returns (B, v)))"
proof -
  from assms obtain self1 where b: "postprocess_body self expires = Returns self1"
    and sb: "getattr snap ''_body'' = getattr self1 ''_body''"
    by (rule postprocess_body_of)
  have 1: "getattr snap ''expires'' = Inr expires"
    using assms by (rule postprocess_expires)
  have 2: "\<exists>b s. getattr snap ''_body'' = Inr b \<and> CachedStreamReader b = Inr s
               \<and> getattr snap ''_content'' = Inr (PStream s)"
    using assms by (rule postprocess_replay)
  have 3: "\<exists>data self'. read_content self = Returns (data, self')
                  \<and> getattr snap ''_body'' = Inr (PBytes data)"
    if "getattr self ''_released'' = Inr released" "\<not> truthy released"
       "getattr self ''_body'' = Inr PNone" for released
    using postprocess_body_drained [OF b that] sb by simp
  have 4: "getattr snap ''_body'' = Inr (PBytes (concat cs))"
    if r: "getattr self ''_released'' = Inr released" "\<not> truthy released"
       "getattr self ''_body'' = Inr PNone"
      and c: "getattr self ''_content''
                = Inr (PStream (Stream [] False None (map FeedData cs @ FeedEof # p) l))"
    for released cs p l
  proof -
    from read_content_stored [OF c stream_read_delivery]
    have "read_content self = Returns (concat cs,
            setattr self ''_content'' (PStream (Stream [] True None p l)))" .
    with 3 [OF r] show ?thesis by auto
  qed
  have 5: "getattr snap ''_body'' = getattr self ''_body''"
    if "getattr self ''_released'' = Inr released" "truthy released" for released
    using postprocess_body_released [OF b that] sb by simp
  have 6: "(\<exists>v. read_content snap = Returns (B, v))
            \<and> (\<exists>v. read_content (reset snap) = Returns (B, v))"
    if body: "getattr snap ''_body'' = Inr body" and rp: "replayed body = Some B" for body B
  proof -
    from 2 body obtain s where s: "CachedStreamReader body = Inr s"
      and c: "getattr snap ''_content'' = Inr (PStream s)" by auto
    from read_content_stored [OF c CachedStreamReader_replayed [OF s rp]]
    have "\<exists>v. read_content snap = Returns (B, v)" by blast
    moreover from body have "getattr (reset snap) ''_body'' = Inr body"
      by (simp add: getattr_reset)
    from read_content_replayed [OF _ this rp]
    have "\<exists>v. read_content (reset snap) = Returns (B, v)" by (simp add: getattr_reset)
    ultimately show ?thesis by blast
  qed
  from 1 2 3 4 5 6 show ?thesis by blast
qed

theorem postprocess_freezes_witness:
  "getattr live_snapshot ''expires'' = Inr (PDatetime 20)
   \<and> getattr live_snapshot ''_body'' = Inr (PBytes (concat [[104], [], [105]]))
   \<and> (\<exists>v. read_content live_snapshot = Returns ([104, 105], v))
   \<and> (\<exists>v. read_content (reset live_snapshot) = Returns ([104, 105], v))
   \<and> getattr released_snapshot ''_body'' = getattr released_response ''_body''"
proof -
  note t = postprocess_freezes [OF live_snapshot_eval]
  note u = postprocess_freezes [OF released_snapshot_eval]
  have 1: "getattr live_snapshot ''expires'' = Inr (PDatetime 20)"
    using t by (rule conjunct1)
  have p: "getattr live_response ''_released'' = Inr (PBool False) \<and> \<not> truthy (PBool False)
         \<and> getattr live_response ''_body'' = Inr PNone
         \<and> getattr live_response ''_content''
             = Inr (PStream (Stream [] False None
                      (map FeedData [[104], [], [105]] @ FeedEof # []) 65536))"
    by (simp add: live_response_def CachedResponse_init_attrs response_args_def getattr_def
          new_stream_def)
  from t have "\<forall>released cs p l. getattr live_response ''_released'' = Inr released
                    \<and> \<not> truthy released
                    \<and> getattr live_response ''_body'' = Inr PNone
                    \<and> getattr live_response ''_content''
                        = Inr (PStream (Stream [] False None (map FeedData cs @ FeedEof # p) l))
          \<longrightarrow> getattr live_snapshot ''_body'' = Inr (PBytes (concat cs))"
    by (elim conjE)
  from this [rule_format, OF p]
  have 2: "getattr live_snapshot ''_body'' = Inr (PBytes (concat [[104], [], [105]]))" .
  from t have "\<forall>body B. getattr live_snapshot ''_body'' = Inr body \<and> replayed body = Some B
          \<longrightarrow> (\<exists>v. read_content live_snapshot = Returns (B, v))
            \<and> (\<exists>v. read_content (reset live_snapshot) = Returns (B, v))"
    by (elim conjE)
  from this [rule_format, of "PBytes [104, 105]" "[104, 105]"] 2
  have 3: "(\<exists>v. read_content live_snapshot = Returns ([104, 105], v))
            \<and> (\<exists>v. read_content (reset live_snapshot) = Returns ([104, 105], v))"
    by simp
  from u have "\<forall>released. getattr released_response ''_released'' = Inr released
                  \<and> truthy released
          \<longrightarrow> getattr released_snapshot ''_body'' = getattr released_response ''_body''"
    by (elim conjE)
  from this [rule_format, of "PBool True"]
  have 4: "getattr released_snapshot ''_body'' = getattr released_response ''_body''"
    by (simp add: released_response_def CachedResponse_init_attrs response_args_def getattr_def)
  from 1 2 3 4 show ?thesis by blast
qed

theorem postprocess_freezes_counterexample:
  "getattr released_response ''_released'' = Inr (PBool True)
   \<and> getattr released_response ''_body'' = Inr PNone
   \<and> getattr released_response ''_content''
       = Inr (PStream (Stream [PBytes [104, 105]] False (Some ClientConnectionError) [] 65536))
   \<and> postprocess (env_at 10) released_response PNone = Returns released_snapshot
   \<and> getattr released_snapshot ''_body'' = Inr PNone
   \<and> getattr released_snapshot ''_content'' = Inr (PStream (Stream [] True None [] 0))
   \<and> read_content released_snapshot = Returns ([], released_snapshot)"
proof -
  have "getattr released_response ''_released'' = Inr (PBool True)"
    "getattr released_response ''_body'' = Inr PNone"
    "getattr released_response ''_content''
       = Inr (PStream (Stream [PBytes [104, 105]] False (Some ClientConnectionError) [] 65536))"
    by (simp_all add: released_response_def CachedResponse_init_attrs response_args_def
          getattr_def)
  moreover have c: "getattr released_snapshot ''_body'' = Inr PNone"
    "getattr released_snapshot ''_content'' = Inr (PStream (Stream [] True None [] 0))"
    by (simp_all add: released_snapshot_def getattr_def)
  moreover have "read_content released_snapshot = Returns ([], released_snapshot)"
    using read_content_stored [OF c(2) stream_read_at_eof]
    by (simp add: released_snapshot_def setattr_def)
  ultimately show ?thesis using released_snapshot_eval by simp
qed





end
